theory Spec2Isabelle
  imports Complex_Main "HOL-Library.Char_ord" "HOL-Library.List_Lexorder" "HOL-Library.Option_ord"
begin

section \<open>Sync controller of plugin-coingecko (services/marketDataService.ts)\<close>

text \<open>
  The class \<^verbatim>\<open>MarketDataService\<close> of plugin-coingecko keeps two mutable fields that
  matter for scheduling, \<^verbatim>\<open>isUpdating\<close> and \<^verbatim>\<open>lastUpdateTime\<close>, and four constants.
  Times are JavaScript millisecond counts.
\<close>

definition UPDATE_INTERVAL :: int where
  "UPDATE_INTERVAL = 60 * 60 * 1000"

definition MINIMUM_UPDATE_GAP :: int where
  "MINIMUM_UPDATE_GAP = 55 * 60 * 1000"

definition MAX_RETRIES :: nat where
  "MAX_RETRIES = 3"

definition RETRY_DELAY :: nat where
  "RETRY_DELAY = 5 * 60 * 1000"

record sync_service =
  isUpdating :: bool
  lastUpdateTime :: int

text \<open>
  What the awaited calls of one pass through the \<^verbatim>\<open>try\<close> block of
  \<^verbatim>\<open>updateMarketData\<close> do: whether \<^verbatim>\<open>Promise.all\<close> of the two
  \<^verbatim>\<open>fetchCategoryData\<close> calls resolves, whether \<^verbatim>\<open>db.storeMarketData\<close> resolves,
  whether \<^verbatim>\<open>db.cleanOldData\<close> resolves, and the value \<^verbatim>\<open>Date.now()\<close> returns after the
  store. The environment of a cycle maps the value of \<^verbatim>\<open>retryCount\<close> to the attempt made
  with it.
\<close>

record attempt =
  fetched :: bool
  stored :: bool
  cleaned :: bool
  clock :: int

datatype sync_error = UpdateFailedAfterRetries nat

text \<open>The observable effects of a cycle, in order: an attempt, a \<^verbatim>\<open>setTimeout\<close> sleep.\<close>

datatype sync_effect = Attempt nat | Sleep nat

text \<open>
  The \<^verbatim>\<open>try\<close> block: \<^verbatim>\<open>True\<close> when it reaches \<^verbatim>\<open>return\<close>, \<^verbatim>\<open>False\<close> when one
  of the awaited calls throws. \<^verbatim>\<open>lastUpdateTime\<close> is assigned between the store and the
  cleanup.
\<close>

definition try_update :: "attempt \<Rightarrow> sync_service \<Rightarrow> bool \<times> sync_service" where
  "try_update a s =
     (if \<not> fetched a then (False, s)
      else if \<not> stored a then (False, s)
      else let s' = s\<lparr>lastUpdateTime := clock a\<rparr>
           in if \<not> cleaned a then (False, s') else (True, s'))"

function update_loop ::
  "(nat \<Rightarrow> attempt) \<Rightarrow> nat \<Rightarrow> sync_service \<Rightarrow> sync_effect list
     \<Rightarrow> (sync_error + unit) \<times> sync_service \<times> sync_effect list" where
  "update_loop env retryCount s tr =
     (if retryCount < MAX_RETRIES then
        (case try_update (env retryCount) s of
           (True, s') \<Rightarrow> (Inr (), s', tr @ [Attempt retryCount])
         | (False, s') \<Rightarrow>
             (if retryCount + 1 < MAX_RETRIES
              then update_loop env (retryCount + 1) s' (tr @ [Attempt retryCount, Sleep RETRY_DELAY])
              else (Inl (UpdateFailedAfterRetries MAX_RETRIES), s', tr @ [Attempt retryCount])))
      else (Inr (), s, tr))"
  by pat_completeness auto
termination
  by (relation "measure (\<lambda>(env, retryCount, s, tr). MAX_RETRIES - retryCount)") auto

definition updateMarketData ::
  "(nat \<Rightarrow> attempt) \<Rightarrow> sync_service \<Rightarrow> (sync_error + unit) \<times> sync_service \<times> sync_effect list" where
  "updateMarketData env s = update_loop env 0 s []"

text \<open>
  \<^verbatim>\<open>checkAndUpdate\<close> is the timer callback. It runs up to its \<^verbatim>\<open>await\<close> in one piece:
  either it returns at once, or it sets the flag and starts \<^verbatim>\<open>updateMarketData\<close>. The
  started cycle then proceeds in later turns of the event loop: it may assign
  \<^verbatim>\<open>lastUpdateTime\<close> after a store, and when it settles the \<^verbatim>\<open>finally\<close> block clears the
  flag. \<^verbatim>\<open>inFlight\<close> counts the cycles that were started from the timer and have not settled; it is
  a ghost field, not a field of the class.
\<close>

record scheduler =
  service :: sync_service
  inFlight :: nat

definition checkAndUpdate :: "int \<Rightarrow> scheduler \<Rightarrow> scheduler" where
  "checkAndUpdate now sch =
     (if isUpdating (service sch) then sch
      else if now - lastUpdateTime (service sch) < MINIMUM_UPDATE_GAP then sch
      else sch\<lparr>service := (service sch)\<lparr>isUpdating := True\<rparr>, inFlight := inFlight sch + 1\<rparr>)"

definition storeSucceeded :: "int \<Rightarrow> scheduler \<Rightarrow> scheduler" where
  "storeSucceeded now sch = sch\<lparr>service := (service sch)\<lparr>lastUpdateTime := now\<rparr>\<rparr>"

definition cycleSettled :: "scheduler \<Rightarrow> scheduler" where
  "cycleSettled sch = sch\<lparr>service := (service sch)\<lparr>isUpdating := False\<rparr>, inFlight := inFlight sch - 1\<rparr>"

text \<open>
  The states the scheduler can be in once \<^verbatim>\<open>initialize\<close> has installed the timer: the
  timer is installed after the initial \<^verbatim>\<open>updateMarketData\<close> has settled, with the flag
  clear. A store or a settlement can only happen for a cycle that is in flight.
\<close>

inductive reachable :: "scheduler \<Rightarrow> bool" where
  init: "reachable \<lparr>service = \<lparr>isUpdating = False, lastUpdateTime = t0\<rparr>, inFlight = 0\<rparr>"
| tick: "reachable sch \<Longrightarrow> reachable (checkAndUpdate now sch)"
| store: "reachable sch \<Longrightarrow> 0 < inFlight sch \<Longrightarrow> reachable (storeSucceeded now sch)"
| settle: "reachable sch \<Longrightarrow> 0 < inFlight sch \<Longrightarrow> reachable (cycleSettled sch)"

section \<open>Enrichment queue of plugin-base-market (services/tokenInfoService.ts)\<close>

definition RATE_LIMIT :: nat where
  "RATE_LIMIT = 30"

definition DELAY_BETWEEN_REQUESTS :: nat where
  "DELAY_BETWEEN_REQUESTS = (60 * 1000) div RATE_LIMIT"

text \<open>
  What one call of \<^verbatim>\<open>axios.get\<close> for a token, followed by the database transaction of
  \<^verbatim>\<open>fetchTokenInfo\<close>, does: the response has data and the transaction commits; the
  response has no data; the transaction throws; axios rejects with a response of the given
  HTTP status; axios rejects without a response.
\<close>

datatype fetch_outcome = Stored | EmptyBody | DatabaseError | HttpError nat | NetworkError

text \<open>The \<^verbatim>\<open>error\<close> strings of a \<^verbatim>\<open>TokenInfoResponse\<close> with \<^verbatim>\<open>success: false\<close>.\<close>

datatype failure_reason =
  ApiKeyNotInitialized | InvalidResponseFormat | DatabaseFailure | RateLimitHitWillRetry | RequestError

datatype TokenInfoResponse = Success | Failure failure_reason

text \<open>What the service does, in order: queue operations, timer waits (ms), HTTP requests.\<close>

datatype queue_event = Dequeued string | Waited nat | Requested string | Requeued string

text \<open>
  The fields of \<^verbatim>\<open>TokenInfoService\<close>. \<^verbatim>\<open>requests\<close> (the number of HTTP requests issued so
  far) and \<^verbatim>\<open>events\<close> are ghost fields. The upstream is a function from the number of
  earlier requests and the token identifier to the outcome of the request.
\<close>

record token_service =
  apiKey :: "string option"
  requestQueue :: "string list"
  requests :: nat
  events :: "queue_event list"

text \<open>The local variables of \<^verbatim>\<open>processBulkTokenInfo\<close>.\<close>

record bulk_counters =
  successCount :: nat
  failureCount :: nat
  failedTokenIds :: "string list"

text \<open>\<^verbatim>\<open>getApiKey\<close> throws when the key is null or the empty string.\<close>

definition getApiKey :: "token_service \<Rightarrow> string option" where
  "getApiKey s = (case apiKey s of None \<Rightarrow> None | Some k \<Rightarrow> if k = [] then None else Some k)"

definition rateLimit :: "token_service \<Rightarrow> token_service" where
  "rateLimit s = s\<lparr>events := events s @ [Waited DELAY_BETWEEN_REQUESTS]\<rparr>"

definition handleRateLimit :: "string \<Rightarrow> token_service \<Rightarrow> token_service" where
  "handleRateLimit tokenId s =
     s\<lparr>requestQueue := tokenId # requestQueue s,
       events := events s @ [Waited 60000, Requeued tokenId]\<rparr>"

text \<open>
  \<^verbatim>\<open>fetchTokenInfo\<close> never throws: the exception of \<^verbatim>\<open>getApiKey\<close> and every rejection of
  axios are caught by its own \<^verbatim>\<open>catch\<close>, which calls \<^verbatim>\<open>handleRateLimit\<close> on status 429.
\<close>

definition fetchTokenInfo ::
  "(nat \<Rightarrow> string \<Rightarrow> fetch_outcome) \<Rightarrow> string \<Rightarrow> token_service \<Rightarrow> TokenInfoResponse \<times> token_service" where
  "fetchTokenInfo upstream tokenId s =
     (case getApiKey s of
        None \<Rightarrow> (Failure ApiKeyNotInitialized, s)
      | Some k \<Rightarrow>
          (let s' = s\<lparr>requests := requests s + 1, events := events s @ [Requested tokenId]\<rparr>
           in case upstream (requests s) tokenId of
                Stored \<Rightarrow> (Success, s')
              | EmptyBody \<Rightarrow> (Failure InvalidResponseFormat, s')
              | DatabaseError \<Rightarrow> (Failure DatabaseFailure, s')
              | HttpError status \<Rightarrow>
                  (if status = 429 then (Failure RateLimitHitWillRetry, handleRateLimit tokenId s')
                   else (Failure RequestError, s'))
              | NetworkError \<Rightarrow> (Failure RequestError, s')))"

text \<open>
  One pass through the body of the \<^verbatim>\<open>while\<close> loop of \<^verbatim>\<open>processBulkTokenInfo\<close>:
  \<^verbatim>\<open>shift\<close>, the \<^verbatim>\<open>continue\<close> on a falsy (empty) identifier, the wait, the fetch and the
  counting of its result. The loop's own \<^verbatim>\<open>catch\<close> is not reached, since neither
  \<^verbatim>\<open>rateLimit\<close> nor \<^verbatim>\<open>fetchTokenInfo\<close> throws.
\<close>

definition iteration ::
  "(nat \<Rightarrow> string \<Rightarrow> fetch_outcome) \<Rightarrow> token_service \<times> bulk_counters
     \<Rightarrow> token_service \<times> bulk_counters" where
  "iteration upstream st =
     (case st of (s, c) \<Rightarrow>
        (case requestQueue s of
           [] \<Rightarrow> (s, c)
         | tokenId # rest \<Rightarrow>
             (let s0 = s\<lparr>requestQueue := rest, events := events s @ [Dequeued tokenId]\<rparr>
              in if tokenId = [] then (s0, c)
                 else (case fetchTokenInfo upstream tokenId (rateLimit s0) of
                         (Success, s1) \<Rightarrow> (s1, c\<lparr>successCount := successCount c + 1\<rparr>)
                       | (Failure e, s1) \<Rightarrow>
                           (s1, c\<lparr>failureCount := failureCount c + 1,
                                  failedTokenIds := failedTokenIds c @ [tokenId]\<rparr>)))))"

text \<open>The \<^verbatim>\<open>while (this.requestQueue.length > 0)\<close> loop; \<^verbatim>\<open>None\<close> when it never ends.\<close>

partial_function (option) drain ::
  "(nat \<Rightarrow> string \<Rightarrow> fetch_outcome) \<Rightarrow> token_service \<times> bulk_counters
     \<Rightarrow> (token_service \<times> bulk_counters) option" where
  "drain upstream st =
     (if requestQueue (fst st) = [] then Some st else drain upstream (iteration upstream st))"

text \<open>
  \<^verbatim>\<open>processBulkTokenInfo\<close> returns at once on an empty list, leaving the queue as it is;
  otherwise it overwrites the queue with a copy of the list and drains it. The counters it
  logs at the end are returned with the service.
\<close>

definition processBulkTokenInfo ::
  "(nat \<Rightarrow> string \<Rightarrow> fetch_outcome) \<Rightarrow> string list \<Rightarrow> token_service
     \<Rightarrow> (token_service \<times> bulk_counters option) option" where
  "processBulkTokenInfo upstream tokenIds s =
     (if tokenIds = [] then Some (s, None)
      else (case drain upstream
                   (s\<lparr>requestQueue := tokenIds\<rparr>,
                    \<lparr>successCount = 0, failureCount = 0, failedTokenIds = []\<rparr>) of
              None \<Rightarrow> None
            | Some (s', c) \<Rightarrow> Some (s', Some c)))"

section \<open>Numbers and SQLite as the code uses them\<close>

text \<open>
  JavaScript numbers and SQLite REAL values are IEEE 754 double-precision numbers. A
  \<^verbatim>\<open>double\<close> is a number other than NaN: a finite value, given by the real number it
  stands for, or an infinity; the two zeros are not told apart. A \<^verbatim>\<open>double option\<close>
  adds \<^term>\<open>None\<close>, which is NaN in JavaScript and NULL in SQLite: SQLite stores NaN as
  NULL and turns a NaN result of its arithmetic into NULL.
\<close>

datatype double = NegInfinity | Finite real | PosInfinity

instantiation double :: linorder
begin

fun less_eq_double :: "double \<Rightarrow> double \<Rightarrow> bool" where
  "less_eq_double NegInfinity b = True"
| "less_eq_double (Finite x) NegInfinity = False"
| "less_eq_double (Finite x) (Finite y) = (x \<le> y)"
| "less_eq_double (Finite x) PosInfinity = True"
| "less_eq_double PosInfinity NegInfinity = False"
| "less_eq_double PosInfinity (Finite y) = False"
| "less_eq_double PosInfinity PosInfinity = True"

definition less_double :: "double \<Rightarrow> double \<Rightarrow> bool" where
  "less_double a b \<longleftrightarrow> a \<le> b \<and> \<not> b \<le> a"

instance
proof
  fix a b c :: double
  show "a < b \<longleftrightarrow> a \<le> b \<and> \<not> b \<le> a"
    by (simp add: less_double_def)
  show "a \<le> a"
    by (cases a) simp_all
  show "a \<le> c" if "a \<le> b" and "b \<le> c"
    using that by (cases a; cases b; cases c) simp_all
  show "a = b" if "a \<le> b" and "b \<le> a"
    using that by (cases a; cases b) simp_all
  show "a \<le> b \<or> b \<le> a"
    by (cases a; cases b) auto
qed

end

text \<open>
  Rounding of a real number to the nearest double, ties to the even significand: 53
  significant bits, exponents from -1022 (below which the spacing stays \<^verbatim>\<open>2^-1074\<close>) to 1023,
  and an infinity when the rounded value reaches \<^verbatim>\<open>2^1024\<close>. Every arithmetic operation on
  doubles returns the rounding of the exact result.
\<close>

definition pow2 :: "int \<Rightarrow> real" where
  "pow2 e = (if 0 \<le> e then 2 ^ nat e else 1 / 2 ^ nat (- e))"

definition round_half_even :: "real \<Rightarrow> int" where
  "round_half_even q =
     (if q - of_int \<lfloor>q\<rfloor> < 1 / 2 then \<lfloor>q\<rfloor>
      else if 1 / 2 < q - of_int \<lfloor>q\<rfloor> then \<lfloor>q\<rfloor> + 1
      else if even \<lfloor>q\<rfloor> then \<lfloor>q\<rfloor> else \<lfloor>q\<rfloor> + 1)"

definition round_double :: "real \<Rightarrow> double" where
  "round_double x =
     (if x = 0 then Finite 0
      else let ulp = pow2 (max \<lfloor>log 2 \<bar>x\<bar>\<rfloor> (- 1022) - 52);
               y = of_int (round_half_even (x / ulp)) * ulp
           in if pow2 1024 \<le> \<bar>y\<bar> then (if 0 < x then PosInfinity else NegInfinity)
              else Finite y)"

fun double_abs :: "double \<Rightarrow> double" where
  "double_abs NegInfinity = PosInfinity"
| "double_abs (Finite x) = Finite \<bar>x\<bar>"
| "double_abs PosInfinity = PosInfinity"

fun double_sub :: "double \<Rightarrow> double \<Rightarrow> double option" where
  "double_sub (Finite x) (Finite y) = Some (round_double (x - y))"
| "double_sub (Finite x) PosInfinity = Some NegInfinity"
| "double_sub (Finite x) NegInfinity = Some PosInfinity"
| "double_sub PosInfinity (Finite y) = Some PosInfinity"
| "double_sub PosInfinity NegInfinity = Some PosInfinity"
| "double_sub PosInfinity PosInfinity = None"
| "double_sub NegInfinity (Finite y) = Some NegInfinity"
| "double_sub NegInfinity PosInfinity = Some NegInfinity"
| "double_sub NegInfinity NegInfinity = None"

fun double_mul :: "double \<Rightarrow> double \<Rightarrow> double option" where
  "double_mul (Finite x) (Finite y) = Some (round_double (x * y))"
| "double_mul (Finite x) PosInfinity =
     (if x = 0 then None else Some (if 0 < x then PosInfinity else NegInfinity))"
| "double_mul (Finite x) NegInfinity =
     (if x = 0 then None else Some (if 0 < x then NegInfinity else PosInfinity))"
| "double_mul PosInfinity (Finite y) =
     (if y = 0 then None else Some (if 0 < y then PosInfinity else NegInfinity))"
| "double_mul NegInfinity (Finite y) =
     (if y = 0 then None else Some (if 0 < y then NegInfinity else PosInfinity))"
| "double_mul PosInfinity PosInfinity = Some PosInfinity"
| "double_mul PosInfinity NegInfinity = Some NegInfinity"
| "double_mul NegInfinity PosInfinity = Some NegInfinity"
| "double_mul NegInfinity NegInfinity = Some PosInfinity"

text \<open>
  Division by a number other than zero. The quotient of a number other than zero by zero
  is an infinity whose sign depends on the sign of the zero, which the model does not keep;
  the function gives \<^term>\<open>None\<close> there. The code divides by zero only inside SQL, where
  the result is NULL (\<^verbatim>\<open>sql_div\<close> below); its one division in JavaScript is by 100.
\<close>

fun double_div :: "double \<Rightarrow> double \<Rightarrow> double option" where
  "double_div (Finite x) (Finite y) = (if y = 0 then None else Some (round_double (x / y)))"
| "double_div (Finite x) PosInfinity = Some (Finite 0)"
| "double_div (Finite x) NegInfinity = Some (Finite 0)"
| "double_div PosInfinity (Finite y) =
     (if y = 0 then None else Some (if 0 < y then PosInfinity else NegInfinity))"
| "double_div NegInfinity (Finite y) =
     (if y = 0 then None else Some (if 0 < y then NegInfinity else PosInfinity))"
| "double_div PosInfinity PosInfinity = None"
| "double_div PosInfinity NegInfinity = None"
| "double_div NegInfinity PosInfinity = None"
| "double_div NegInfinity NegInfinity = None"

text \<open>
  A stored SQL value of the columns the model compares: a number, given by its value
  whether SQLite keeps it as INTEGER or as REAL, or a text. SQLite sorts every number below
  every text, numbers by value and texts byte by byte. A column declared
  \<^verbatim>\<open>TIMESTAMP\<close> has NUMERIC affinity: a text that is a well-formed integer or real literal
  is stored as that number, any other text as it is. The reading of a text as a numeric
  literal is SQLite's; it is a parameter of the model (\<^term>\<open>None\<close>: not a numeric literal).
\<close>

datatype sql_value = SqlNumber double | SqlText string

instantiation sql_value :: linorder
begin

fun less_eq_sql_value :: "sql_value \<Rightarrow> sql_value \<Rightarrow> bool" where
  "less_eq_sql_value (SqlNumber a) (SqlNumber b) = (a \<le> b)"
| "less_eq_sql_value (SqlNumber a) (SqlText t) = True"
| "less_eq_sql_value (SqlText s) (SqlNumber b) = False"
| "less_eq_sql_value (SqlText s) (SqlText t) = (s \<le> t)"

definition less_sql_value :: "sql_value \<Rightarrow> sql_value \<Rightarrow> bool" where
  "less_sql_value a b \<longleftrightarrow> a \<le> b \<and> \<not> b \<le> a"

instance
proof
  fix a b c :: sql_value
  show "a < b \<longleftrightarrow> a \<le> b \<and> \<not> b \<le> a"
    by (simp add: less_sql_value_def)
  show "a \<le> a"
    by (cases a) simp_all
  show "a \<le> c" if "a \<le> b" and "b \<le> c"
    using that by (cases a; cases b; cases c) auto
  show "a = b" if "a \<le> b" and "b \<le> a"
    using that by (cases a; cases b) auto
  show "a \<le> b \<or> b \<le> a"
    by (cases a; cases b) auto
qed

end

definition numeric_affinity :: "(string \<Rightarrow> double option) \<Rightarrow> string \<Rightarrow> sql_value" where
  "numeric_affinity numeric_literal txt =
     (case numeric_literal txt of Some d \<Rightarrow> SqlNumber d | None \<Rightarrow> SqlText txt)"

datatype sql_error =
  MissingNamedParameter string | NotNullConstraint string | ForeignKeyConstraint | StatementFailed

text \<open>
  \<^verbatim>\<open>db.transaction(fn)\<close> of better-sqlite3, applied to its argument: it runs
  \<^verbatim>\<open>BEGIN\<close>, the function and \<^verbatim>\<open>COMMIT\<close>; when the function throws it runs
  \<^verbatim>\<open>ROLLBACK\<close> and throws the same exception again. The body returns the exception, if
  any, with the database as it was when the exception was thrown.
\<close>

definition transaction :: "('db \<Rightarrow> (sql_error + unit) \<times> 'db) \<Rightarrow> 'db \<Rightarrow> (sql_error + unit) \<times> 'db" where
  "transaction body db =
     (case body db of
        (Inl e, db') \<Rightarrow> (Inl e, db)
      | (Inr v, db') \<Rightarrow> (Inr v, db'))"

text \<open>
  \<^verbatim>\<open>ORDER BY key DESC\<close>: NULL sorts below every value, so it comes last. SQL leaves the
  order of rows with equal keys open; the model keeps them in the order in which it is given
  the rows.
\<close>

fun insort_desc :: "('a \<Rightarrow> 'k::linorder) \<Rightarrow> 'a \<Rightarrow> 'a list \<Rightarrow> 'a list" where
  "insort_desc key x [] = [x]"
| "insort_desc key x (y # ys) =
     (if key y \<le> key x then x # y # ys else y # insort_desc key x ys)"

definition order_by_desc :: "('a \<Rightarrow> 'k::linorder) \<Rightarrow> 'a list \<Rightarrow> 'a list" where
  "order_by_desc key xs = foldr (insort_desc key) xs []"

text \<open>\<^verbatim>\<open>LIMIT n\<close>: a negative \<^verbatim>\<open>n\<close> means no limit.\<close>

definition sql_limit :: "int \<Rightarrow> 'a list \<Rightarrow> 'a list" where
  "sql_limit n xs = (if n < 0 then xs else take (nat n) xs)"

text \<open>\<^verbatim>\<open>SELECT MAX(col)\<close>: NULL over no rows.\<close>

definition sql_max :: "'a::linorder list \<Rightarrow> 'a option" where
  "sql_max xs = (case xs of [] \<Rightarrow> None | x # ys \<Rightarrow> Some (fold max ys x))"

text \<open>\<^verbatim>\<open>a / b\<close> on REAL values: NULL when the divisor is 0.\<close>

definition sql_div :: "double \<Rightarrow> double \<Rightarrow> double option" where
  "sql_div a b = (if b = Finite 0 then None else double_div a b)"

text \<open>
  Comparisons in a \<^verbatim>\<open>WHERE\<close> or \<^verbatim>\<open>CASE WHEN\<close>: a comparison with NULL is not true.
\<close>

definition sql_ge :: "double option \<Rightarrow> real \<Rightarrow> bool" where
  "sql_ge x c = (case x of None \<Rightarrow> False | Some v \<Rightarrow> Finite c \<le> v)"

definition sql_gt :: "double option \<Rightarrow> real \<Rightarrow> bool" where
  "sql_gt x c = (case x of None \<Rightarrow> False | Some v \<Rightarrow> Finite c < v)"

section \<open>adapter-marketdatabase (schema.sql, src/index.ts, src/types.ts)\<close>

text \<open>
  The objects passed to \<^verbatim>\<open>storeMarketData\<close>: the fields of the interface
  \<^verbatim>\<open>MarketData\<close>, and the property \<^verbatim>\<open>coin_id\<close>, which the interface does not declare
  but the prepared statement \<^verbatim>\<open>insertMarketData\<close> binds as \<^verbatim>\<open>@coin_id\<close>
  (\<^term>\<open>None\<close>: the object has no such property).
\<close>

record MarketData =
  item_id :: string
  item_symbol :: string
  item_name :: string
  item_current_price :: "double option"
  item_market_cap :: "double option"
  item_total_volume :: "double option"
  item_market_cap_rank :: "double option"
  item_price_change_percentage_1h :: "double option"
  item_price_change_percentage_24h :: "double option"
  item_price_change_percentage_7d :: "double option"
  item_price_change_percentage_14d :: "double option"
  item_price_change_percentage_30d :: "double option"
  item_timestamp :: string
  item_coin_id :: "string option"

text \<open>
  The tables of schema.sql that the modelled operations touch, with the aliases of the
  queries as field prefixes. Columns that are only ever filled by their defaults and never
  read (\<^verbatim>\<open>created_at\<close>, \<^verbatim>\<open>added_at\<close>) are left out. \<^verbatim>\<open>market_data\<close> has an
  \<^verbatim>\<open>INTEGER PRIMARY KEY AUTOINCREMENT\<close> and no other key; \<^verbatim>\<open>market_data_seq\<close> is the
  last id handed out.
\<close>

record coins_row =
  c_id :: string
  c_symbol :: string
  c_name :: string

record coin_categories_row =
  cc_coin_id :: string
  cc_category_id :: string

record market_data_row =
  m_id :: nat
  m_coin_id :: string
  m_current_price :: double
  m_market_cap :: double
  m_total_volume :: double
  m_market_cap_rank :: "double option"
  m_price_change_percentage_1h :: "double option"
  m_price_change_percentage_24h :: "double option"
  m_price_change_percentage_7d :: "double option"
  m_price_change_percentage_14d :: "double option"
  m_price_change_percentage_30d :: "double option"
  m_price_change_percentage_200d :: "double option"
  m_timestamp :: sql_value
  m_data_source :: string

record database =
  coins :: "coins_row list"
  coin_categories :: "coin_categories_row list"
  market_data :: "market_data_row list"
  market_data_seq :: nat

text \<open>\<^verbatim>\<open>INSERT OR IGNORE INTO coins (id, symbol, name)\<close>: ignored when the id exists.\<close>

definition insertCoin :: "MarketData \<Rightarrow> database \<Rightarrow> database" where
  "insertCoin item db =
     (if item_id item \<in> set (map c_id (coins db)) then db
      else db\<lparr>coins := coins db @
             [\<lparr>c_id = item_id item, c_symbol = item_symbol item, c_name = item_name item\<rparr>]\<rparr>)"

text \<open>
  \<^verbatim>\<open>INSERT INTO market_data (...) VALUES (@coin_id, ...)\<close>, run with the object
  \<^verbatim>\<open>{...item, timestamp: item.timestamp || now}\<close>. better-sqlite3 throws when the object
  lacks a named parameter; SQLite throws on NULL in a \<^verbatim>\<open>NOT NULL\<close> column and on a
  \<^verbatim>\<open>coin_id\<close> that is not in \<^verbatim>\<open>coins\<close>. Otherwise one row is appended under the next id;
  its timestamp is stored under the NUMERIC affinity of the column.
\<close>

definition insertMarketData ::
  "(string \<Rightarrow> double option) \<Rightarrow> string \<Rightarrow> MarketData \<Rightarrow> database \<Rightarrow> sql_error + database" where
  "insertMarketData numeric_literal now item db =
     (case item_coin_id item of
        None \<Rightarrow> Inl (MissingNamedParameter ''coin_id'')
      | Some coin \<Rightarrow>
          (case item_current_price item of
             None \<Rightarrow> Inl (NotNullConstraint ''market_data.current_price'')
           | Some price \<Rightarrow>
               (case item_market_cap item of
                  None \<Rightarrow> Inl (NotNullConstraint ''market_data.market_cap'')
                | Some cap \<Rightarrow>
                    (case item_total_volume item of
                       None \<Rightarrow> Inl (NotNullConstraint ''market_data.total_volume'')
                     | Some volume \<Rightarrow>
                         (if coin \<notin> set (map c_id (coins db)) then Inl ForeignKeyConstraint
                          else Inr (db\<lparr>market_data := market_data db @
                                 [\<lparr>m_id = market_data_seq db + 1,
                                   m_coin_id = coin,
                                   m_current_price = price,
                                   m_market_cap = cap,
                                   m_total_volume = volume,
                                   m_market_cap_rank = item_market_cap_rank item,
                                   m_price_change_percentage_1h = item_price_change_percentage_1h item,
                                   m_price_change_percentage_24h = item_price_change_percentage_24h item,
                                   m_price_change_percentage_7d = item_price_change_percentage_7d item,
                                   m_price_change_percentage_14d = item_price_change_percentage_14d item,
                                   m_price_change_percentage_30d = item_price_change_percentage_30d item,
                                   m_price_change_percentage_200d = None,
                                   m_timestamp =
                                     numeric_affinity numeric_literal
                                       (if item_timestamp item = [] then now
                                        else item_timestamp item),
                                   m_data_source = ''coingecko''\<rparr>],
                               market_data_seq := market_data_seq db + 1\<rparr>))))))"

text \<open>
  An item for which \<^verbatim>\<open>insertMarketData\<close> throws whatever the database holds: it has no
  \<^verbatim>\<open>coin_id\<close>, or one of the \<^verbatim>\<open>NOT NULL\<close> numbers is NULL.
\<close>

definition lacks_required :: "MarketData \<Rightarrow> bool" where
  "lacks_required item \<longleftrightarrow>
     item_coin_id item = None \<or> item_current_price item = None \<or>
     item_market_cap item = None \<or> item_total_volume item = None"

text \<open>
  The function given to \<^verbatim>\<open>db.transaction\<close> in \<^verbatim>\<open>storeMarketData\<close>: for each item the
  coin, then the market data. An exception leaves the loop with the rows written so far.
\<close>

fun store_items ::
  "(string \<Rightarrow> double option) \<Rightarrow> string \<Rightarrow> MarketData list \<Rightarrow> database
     \<Rightarrow> (sql_error + unit) \<times> database" where
  "store_items numeric_literal now [] db = (Inr (), db)"
| "store_items numeric_literal now (item # marketData) db =
     (case insertMarketData numeric_literal now item (insertCoin item db) of
        Inl e \<Rightarrow> (Inl e, insertCoin item db)
      | Inr db' \<Rightarrow> store_items numeric_literal now marketData db')"

definition storeMarketData ::
  "(string \<Rightarrow> double option) \<Rightarrow> string \<Rightarrow> MarketData list \<Rightarrow> database
     \<Rightarrow> (sql_error + unit) \<times> database" where
  "storeMarketData numeric_literal now data db = transaction (store_items numeric_literal now data) db"

text \<open>
  \<^verbatim>\<open>getMarketAnalysis\<close>. The two values SQLite computes from its clock,
  \<^verbatim>\<open>datetime('now', '-1 day')\<close> and \<^verbatim>\<open>datetime('now', '-2 days')\<close>, are parameters;
  they are texts of the form \<^verbatim>\<open>YYYY-MM-DD HH:MM:SS\<close>, which are not numeric literals. The
  arithmetic of the queries is SQLite's on REAL values, that of the JavaScript \<^verbatim>\<open>map\<close> is
  JavaScript's; both are double arithmetic, and a NaN is NULL in the one and
  \<^term>\<open>None\<close> in the other.
\<close>

datatype MarketTimeframe = TF_24h | TF_7d | TF_30d

record MarketAnalysisParams =
  timeframe :: MarketTimeframe
  param_category :: "string option"
  param_limit :: "int option"

record sql_clock =
  one_day_ago :: string
  two_days_ago :: string

record VolumeLeader =
  vl_name :: string
  vl_symbol :: string
  vl_volume_change :: "double option"
  vl_price_change :: "double option"

record PriceMover =
  pm_name :: string
  pm_symbol :: string
  pm_price_change :: "double option"
  pm_volume_change :: "double option"

record MarketAnalysis =
  volumeLeaders :: "VolumeLeader list"
  priceMovers :: "PriceMover list"

text \<open>\<^verbatim>\<open>params.limit || 5\<close> and \<^verbatim>\<open>params.limit || 10\<close>: a missing limit and 0 are falsy.\<close>

definition analysis_limit :: "MarketAnalysisParams \<Rightarrow> int" where
  "analysis_limit params =
     (case param_limit params of
        None \<Rightarrow> (if timeframe params = TF_24h then 5 else 10)
      | Some n \<Rightarrow> (if n = 0 then (if timeframe params = TF_24h then 5 else 10) else n))"

text \<open>
  \<^verbatim>\<open>params.category ? 'AND cc.category_id = ?' : ''\<close>: a missing category and the
  empty string are falsy, and then the query has no condition on the category.
\<close>

definition category_ok :: "MarketAnalysisParams \<Rightarrow> coin_categories_row \<Rightarrow> bool" where
  "category_ok params cc =
     (case param_category params of
        None \<Rightarrow> True
      | Some category \<Rightarrow> (if category = [] then True else cc_category_id cc = category))"

text \<open>
  The common table expression \<^verbatim>\<open>recent\<close>: one row, the newest of the last day. SQLite
  reads the index \<^verbatim>\<open>idx_market_data_timestamp\<close> of schema.sql backwards, so of several
  rows with the newest timestamp it takes the one inserted last; the rows of
  \<^verbatim>\<open>market_data\<close> are kept in the order of their ids.
\<close>

definition recent :: "sql_clock \<Rightarrow> database \<Rightarrow> market_data_row list" where
  "recent clk db =
     take 1 (order_by_desc m_timestamp
               (rev (filter (\<lambda>m. SqlText (one_day_ago clk) \<le> m_timestamp m) (market_data db))))"

text \<open>\<^verbatim>\<open>((r.x - m.x) / m.x * 100)\<close>\<close>

definition change_pct :: "double \<Rightarrow> double \<Rightarrow> double option" where
  "change_pct rx mx =
     Option.bind (double_sub rx mx)
       (\<lambda>d. Option.bind (sql_div d mx) (\<lambda>q. double_mul q (Finite 100)))"

definition volume_change_pct :: "market_data_row \<Rightarrow> market_data_row \<Rightarrow> double option" where
  "volume_change_pct r m = change_pct (m_total_volume r) (m_total_volume m)"

definition price_change_pct :: "market_data_row \<Rightarrow> market_data_row \<Rightarrow> double option" where
  "price_change_pct r m = change_pct (m_current_price r) (m_current_price m)"

definition volumeLeadersRaw :: "sql_clock \<Rightarrow> MarketAnalysisParams \<Rightarrow> database \<Rightarrow> VolumeLeader list" where
  "volumeLeadersRaw clk params db =
     sql_limit (analysis_limit params)
       (order_by_desc vl_volume_change
          [\<lparr>vl_name = c_name c, vl_symbol = c_symbol c,
            vl_volume_change = volume_change_pct r m,
            vl_price_change = price_change_pct r m\<rparr>.
             m \<leftarrow> market_data db,
             c \<leftarrow> coins db, m_coin_id m = c_id c,
             r \<leftarrow> recent clk db, m_coin_id m = m_coin_id r,
             cc \<leftarrow> coin_categories db, c_id c = cc_coin_id cc,
             SqlText (two_days_ago clk) \<le> m_timestamp m,
             category_ok params cc])"

text \<open>
  The rows of \<^verbatim>\<open>priceMoversRaw\<close> before the JavaScript \<^verbatim>\<open>map\<close>: the coin and the
  \<^verbatim>\<open>market_data\<close> row the columns \<^verbatim>\<open>name\<close>, \<^verbatim>\<open>symbol\<close>, \<^verbatim>\<open>price_change\<close> and
  \<^verbatim>\<open>volume\<close> are read from.
\<close>

definition priceMoversRaw ::
  "MarketAnalysisParams \<Rightarrow> database \<Rightarrow> (coins_row \<times> market_data_row) list" where
  "priceMoversRaw params db =
     sql_limit (analysis_limit params)
       (order_by_desc (\<lambda>(c, m). map_option double_abs (m_price_change_percentage_24h m))
          [(c, m).
             m \<leftarrow> market_data db,
             c \<leftarrow> coins db, m_coin_id m = c_id c,
             cc \<leftarrow> coin_categories db, c_id c = cc_coin_id cc,
             Some (m_timestamp m) = sql_max (map m_timestamp (market_data db)),
             category_ok params cc])"

text \<open>\<^verbatim>\<open>((row.volume / 100) - 1) * 100\<close> in JavaScript.\<close>

definition volume_change_of :: "double \<Rightarrow> double option" where
  "volume_change_of volume =
     Option.bind (Option.bind (double_div volume (Finite 100)) (\<lambda>q. double_sub q (Finite 1)))
       (\<lambda>d. double_mul d (Finite 100))"

definition getMarketAnalysis :: "sql_clock \<Rightarrow> MarketAnalysisParams \<Rightarrow> database \<Rightarrow> MarketAnalysis" where
  "getMarketAnalysis clk params db =
     \<lparr>volumeLeaders = volumeLeadersRaw clk params db,
      priceMovers =
        map (\<lambda>(c, m). \<lparr>pm_name = c_name c, pm_symbol = c_symbol c,
                        pm_price_change = m_price_change_percentage_24h m,
                        pm_volume_change = volume_change_of (m_total_volume m)\<rparr>)
            (priceMoversRaw params db)\<rparr>"

section \<open>Market data service of plugin-base-market (services/marketDataService.ts)\<close>

text \<open>
  A record of the upstream API and a row of \<^verbatim>\<open>base_market_data\<close>, with the columns the
  modelled queries read (the alias \<^verbatim>\<open>bmd\<close> of the queries as prefix); the other 25 columns
  of the insert statement are carried along and read by none of them. \<^verbatim>\<open>fetchMarketData\<close>
  adds \<^verbatim>\<open>category\<close> and \<^verbatim>\<open>timestamp\<close> to every fetched record.
\<close>

record api_token =
  bmd_id :: string
  bmd_current_price :: "double option"
  bmd_market_cap :: "double option"
  bmd_total_volume :: "double option"
  bmd_price_change_percentage_24h :: "double option"
  bmd_price_change_percentage_7d_in_currency :: "double option"

record TokenMarketData =
  token :: api_token
  category :: string
  timestamp :: int

text \<open>
  The file with the \<^verbatim>\<open>CREATE TABLE\<close> statement of \<^verbatim>\<open>base_market_data\<close>
  (\<^verbatim>\<open>src/schema.ts\<close>) is not among the sources, so the constraints of the table are
  parameters of the model.
  \<^verbatim>\<open>run_throws\<close>: \<^verbatim>\<open>stmt.run(token)\<close> throws for this row (a named parameter is missing, a
  value cannot be bound, a constraint that \<^verbatim>\<open>OR IGNORE\<close> does not cover fails).
  \<^verbatim>\<open>ignores\<close>: the row violates a uniqueness, \<^verbatim>\<open>NOT NULL\<close> or \<^verbatim>\<open>CHECK\<close> constraint against the
  rows of the table, and \<^verbatim>\<open>INSERT OR IGNORE\<close> skips it.
\<close>

record base_market_schema =
  run_throws :: "TokenMarketData \<Rightarrow> bool"
  ignores :: "TokenMarketData list \<Rightarrow> TokenMarketData \<Rightarrow> bool"

definition insertOrIgnore ::
  "base_market_schema \<Rightarrow> TokenMarketData \<Rightarrow> TokenMarketData list \<Rightarrow> sql_error + TokenMarketData list" where
  "insertOrIgnore schema tok tbl =
     (if run_throws schema tok then Inl StatementFailed
      else if ignores schema tbl tok then Inr tbl
      else Inr (tbl @ [tok]))"

fun store_tokens ::
  "base_market_schema \<Rightarrow> TokenMarketData list \<Rightarrow> TokenMarketData list
     \<Rightarrow> (sql_error + unit) \<times> TokenMarketData list" where
  "store_tokens schema [] tbl = (Inr (), tbl)"
| "store_tokens schema (tok # tokens) tbl =
     (case insertOrIgnore schema tok tbl of
        Inl e \<Rightarrow> (Inl e, tbl)
      | Inr tbl' \<Rightarrow> store_tokens schema tokens tbl')"

definition base_storeMarketData ::
  "base_market_schema \<Rightarrow> TokenMarketData list \<Rightarrow> TokenMarketData list
     \<Rightarrow> (sql_error + unit) \<times> TokenMarketData list" where
  "base_storeMarketData schema data tbl = transaction (store_tokens schema data) tbl"

text \<open>
  What the upstream does with the request for a page: it answers with an array of records,
  it answers with something that is not an array, or axios throws. The effects of a fetch,
  in order, are page requests and \<^verbatim>\<open>setTimeout\<close> delays (ms).
\<close>

datatype page_response = Page "api_token list" | NotAnArray | RequestThrows

datatype fetch_event = Request nat | Delay nat

text \<open>The records of a response that is an array.\<close>

definition page_data :: "page_response \<Rightarrow> api_token list" where
  "page_data r = (case r of Page d \<Rightarrow> d | NotAnArray \<Rightarrow> [] | RequestThrows \<Rightarrow> [])"

datatype fetch_failure =
  MarketApiKeyNotInitialized | MarketInvalidResponseFormat | MarketRequestError
  | MarketDatabaseError sql_error

datatype MarketDataResponse = FetchSuccess "TokenMarketData list" | FetchFailure fetch_failure

record market_service =
  market_apiKey :: "string option"
  base_market_data :: "TokenMarketData list"

definition market_getApiKey :: "market_service \<Rightarrow> string option" where
  "market_getApiKey svc =
     (case market_apiKey svc of None \<Rightarrow> None | Some k \<Rightarrow> if k = [] then None else Some k)"

text \<open>
  The \<^verbatim>\<open>while (hasMoreData)\<close> loop of \<^verbatim>\<open>fetchMarketData\<close>, with \<^verbatim>\<open>allTokens\<close> and
  \<^verbatim>\<open>currentPage\<close> as arguments; \<^verbatim>\<open>None\<close> when it never ends. \<^verbatim>\<open>getApiKey\<close> is called
  for the headers of each request and throws before the request when the key is not set.
\<close>

partial_function (option) fetch_pages ::
  "(nat \<Rightarrow> page_response) \<Rightarrow> market_service \<Rightarrow> api_token list \<Rightarrow> nat \<Rightarrow> fetch_event list
     \<Rightarrow> ((fetch_failure + api_token list) \<times> fetch_event list) option" where
  "fetch_pages upstream svc allTokens currentPage tr =
     (case market_getApiKey svc of
        None \<Rightarrow> Some (Inl MarketApiKeyNotInitialized, tr)
      | Some k \<Rightarrow>
          (case upstream currentPage of
             RequestThrows \<Rightarrow> Some (Inl MarketRequestError, tr @ [Request currentPage])
           | NotAnArray \<Rightarrow> Some (Inl MarketInvalidResponseFormat, tr @ [Request currentPage])
           | Page data \<Rightarrow>
               (if length data < 250
                then Some (Inr (allTokens @ data), tr @ [Request currentPage])
                else fetch_pages upstream svc (allTokens @ data) (currentPage + 1)
                       (tr @ [Request currentPage, Delay 1100]))))"

text \<open>
  \<^verbatim>\<open>fetchMarketData\<close>: the pages, then the tagging with the category and
  \<^verbatim>\<open>Math.floor(Date.now() / 1000)\<close>, then the store, whose exception is caught and turned
  into a failure response.
\<close>

definition fetchMarketData ::
  "(nat \<Rightarrow> page_response) \<Rightarrow> int \<Rightarrow> base_market_schema \<Rightarrow> string \<Rightarrow> market_service
     \<Rightarrow> (MarketDataResponse \<times> market_service \<times> fetch_event list) option" where
  "fetchMarketData upstream now_ms schema cat svc =
     (case fetch_pages upstream svc [] 1 [] of
        None \<Rightarrow> None
      | Some (Inl failure, tr) \<Rightarrow> Some (FetchFailure failure, svc, tr)
      | Some (Inr allTokens, tr) \<Rightarrow>
          (let data = map (\<lambda>tok. \<lparr>token = tok, category = cat, timestamp = now_ms div 1000\<rparr>)
                          allTokens
           in case base_storeMarketData schema data (base_market_data svc) of
                (Inr u, tbl) \<Rightarrow> Some (FetchSuccess data, svc\<lparr>base_market_data := tbl\<rparr>, tr)
              | (Inl e, tbl) \<Rightarrow>
                  Some (FetchFailure (MarketDatabaseError e), svc\<lparr>base_market_data := tbl\<rparr>, tr)))"

text \<open>
  \<^verbatim>\<open>getNotableMovers\<close>. It joins \<^verbatim>\<open>base_market_data\<close> with the table
  \<^verbatim>\<open>base_token_info\<close> of tokenInfoSchema, of which the query reads four columns, all
  nullable text but the key.
\<close>

record token_info_row =
  bti_id :: string
  bti_name :: "string option"
  bti_symbol :: "string option"
  bti_asset_platform_id :: "string option"

text \<open>A row of the common table expression \<^verbatim>\<open>base_native_metrics\<close>.\<close>

record metrics_row =
  bnm_id :: string
  bnm_name :: "string option"
  bnm_symbol :: "string option"
  bnm_current_price :: "double option"
  bnm_market_cap :: "double option"
  bnm_total_volume :: "double option"
  bnm_price_change_percentage_24h :: "double option"
  bnm_price_change_percentage_7d :: "double option"
  bnm_movement_score_24h :: "double option"
  bnm_movement_score_7d :: "double option"

text \<open>
  SQLite's \<^verbatim>\<open>LOG10\<close> calls the logarithm of the C library, whose result the language
  standard does not fix to the last bit; it is a parameter \<^verbatim>\<open>LOG10\<close> of the model, from a
  double to a double or NULL. \<^verbatim>\<open>correctly_rounded_log10\<close> is the instance that rounds the
  exact logarithm.
\<close>

definition correctly_rounded_log10 :: "double \<Rightarrow> double option" where
  "correctly_rounded_log10 d =
     (case d of
        NegInfinity \<Rightarrow> None
      | Finite x \<Rightarrow> if 0 < x then Some (round_double (log 10 x)) else None
      | PosInfinity \<Rightarrow> Some PosInfinity)"

text \<open>\<^verbatim>\<open>LOG10(CASE WHEN x > 1 THEN x ELSE 1 END)\<close>\<close>

definition log10_clamped :: "(double \<Rightarrow> double option) \<Rightarrow> double option \<Rightarrow> double option" where
  "log10_clamped LOG10 x = LOG10 (if sql_gt x 1 then the x else Finite 1)"

text \<open>
  \<^verbatim>\<open>(pct * LOG10(...market_cap...) * LOG10(...total_volume...))\<close>: the product of the first
  two, then times the third; NULL as soon as an operand is NULL.
\<close>

definition movement_score ::
  "(double \<Rightarrow> double option) \<Rightarrow> double option \<Rightarrow> double option \<Rightarrow> double option \<Rightarrow> double option" where
  "movement_score LOG10 pct cap vol =
     Option.bind
       (Option.bind pct (\<lambda>p. Option.bind (log10_clamped LOG10 cap) (\<lambda>l. double_mul p l)))
       (\<lambda>s. Option.bind (log10_clamped LOG10 vol) (\<lambda>l. double_mul s l))"

text \<open>The select list of \<^verbatim>\<open>base_native_metrics\<close> for a joined pair of rows.\<close>

definition metrics_row_of ::
  "(double \<Rightarrow> double option) \<Rightarrow> TokenMarketData \<Rightarrow> token_info_row \<Rightarrow> metrics_row" where
  "metrics_row_of LOG10 bmd bti =
     \<lparr>bnm_id = bmd_id (token bmd),
      bnm_name = bti_name bti,
      bnm_symbol = bti_symbol bti,
      bnm_current_price = bmd_current_price (token bmd),
      bnm_market_cap = bmd_market_cap (token bmd),
      bnm_total_volume = bmd_total_volume (token bmd),
      bnm_price_change_percentage_24h = bmd_price_change_percentage_24h (token bmd),
      bnm_price_change_percentage_7d = bmd_price_change_percentage_7d_in_currency (token bmd),
      bnm_movement_score_24h =
        movement_score LOG10 (bmd_price_change_percentage_24h (token bmd))
          (bmd_market_cap (token bmd)) (bmd_total_volume (token bmd)),
      bnm_movement_score_7d =
        movement_score LOG10 (bmd_price_change_percentage_7d_in_currency (token bmd))
          (bmd_market_cap (token bmd)) (bmd_total_volume (token bmd))\<rparr>"

text \<open>The join and the \<^verbatim>\<open>WHERE\<close> clause of \<^verbatim>\<open>base_native_metrics\<close>.\<close>

definition base_native_metrics ::
  "(double \<Rightarrow> double option) \<Rightarrow> TokenMarketData list \<Rightarrow> token_info_row list \<Rightarrow> metrics_row list" where
  "base_native_metrics LOG10 bmds btis =
     [metrics_row_of LOG10 bmd bti.
        bmd \<leftarrow> bmds,
        bti \<leftarrow> btis, bmd_id (token bmd) = bti_id bti,
        Some (timestamp bmd) = sql_max (map timestamp bmds),
        bti_asset_platform_id bti = Some ''base'',
        sql_ge (bmd_market_cap (token bmd)) 5000000,
        sql_ge (bmd_total_volume (token bmd)) 300000,
        sql_ge (map_option double_abs (bmd_price_change_percentage_24h (token bmd))) 5 \<or>
        sql_ge (map_option double_abs (bmd_price_change_percentage_7d_in_currency (token bmd))) 5]"

text \<open>
  The two branches of the \<^verbatim>\<open>UNION ALL\<close> differ in the timeframe: its name, the column
  of the price change, the column of the score and the number of rows kept per bucket.
\<close>

datatype timeframe_branch = Last_24h | Last_7d

fun timeframe_name :: "timeframe_branch \<Rightarrow> string" where
  "timeframe_name Last_24h = ''last_24h''"
| "timeframe_name Last_7d = ''last_7d''"

fun price_change_of :: "timeframe_branch \<Rightarrow> metrics_row \<Rightarrow> double option" where
  "price_change_of Last_24h r = bnm_price_change_percentage_24h r"
| "price_change_of Last_7d r = bnm_price_change_percentage_7d r"

fun score_of :: "timeframe_branch \<Rightarrow> metrics_row \<Rightarrow> double option" where
  "score_of Last_24h r = bnm_movement_score_24h r"
| "score_of Last_7d r = bnm_movement_score_7d r"

fun kept_per_bucket :: "timeframe_branch \<Rightarrow> nat" where
  "kept_per_bucket Last_24h = 3"
| "kept_per_bucket Last_7d = 1"

text \<open>
  The column of \<^verbatim>\<open>base_market_data\<close> from which the branch takes its price change.
\<close>

fun bmd_price_change :: "timeframe_branch \<Rightarrow> api_token \<Rightarrow> double option" where
  "bmd_price_change Last_24h tok = bmd_price_change_percentage_24h tok"
| "bmd_price_change Last_7d tok = bmd_price_change_percentage_7d_in_currency tok"

text \<open>\<^verbatim>\<open>CASE WHEN price_change > 0 THEN 'gainer' ELSE 'loser' END\<close>\<close>

definition movement_type :: "double option \<Rightarrow> string" where
  "movement_type pct = (if sql_gt pct 0 then ''gainer'' else ''loser'')"

text \<open>
  One partition of the window function, in the order of \<^verbatim>\<open>ROW_NUMBER()\<close>: the rows of
  the branch with this movement type, by \<^verbatim>\<open>ABS(movement_score) DESC\<close>. The row at index
  \<^verbatim>\<open>i\<close> has rank \<^verbatim>\<open>i + 1\<close>.
\<close>

definition ranked :: "timeframe_branch \<Rightarrow> string \<Rightarrow> metrics_row list \<Rightarrow> metrics_row list" where
  "ranked tf mt metrics =
     order_by_desc (\<lambda>r. map_option double_abs (score_of tf r))
       (filter (\<lambda>r. sql_ge (map_option double_abs (price_change_of tf r)) 5 \<and>
                     movement_type (price_change_of tf r) = mt) metrics)"

record NotableMover =
  nm_timeframe :: string
  nm_name :: "string option"
  nm_symbol :: "string option"
  nm_current_price :: "double option"
  nm_market_cap :: "double option"
  nm_total_volume :: "double option"
  nm_price_change :: "double option"
  nm_movement_type :: string

definition notable_mover :: "timeframe_branch \<Rightarrow> metrics_row \<Rightarrow> NotableMover" where
  "notable_mover tf r =
     \<lparr>nm_timeframe = timeframe_name tf,
      nm_name = bnm_name r,
      nm_symbol = bnm_symbol r,
      nm_current_price = bnm_current_price r,
      nm_market_cap = bnm_market_cap r,
      nm_total_volume = bnm_total_volume r,
      nm_price_change = price_change_of tf r,
      nm_movement_type = movement_type (price_change_of tf r)\<rparr>"

text \<open>
  The rows with \<^verbatim>\<open>rank <= 3\<close> of the 24h branch and \<^verbatim>\<open>rank = 1\<close> of the 7d branch,
  in the order of \<^verbatim>\<open>ORDER BY timeframe, movement_type, rank\<close>.
\<close>

definition getNotableMovers ::
  "(double \<Rightarrow> double option) \<Rightarrow> TokenMarketData list \<Rightarrow> token_info_row list \<Rightarrow> NotableMover list" where
  "getNotableMovers LOG10 bmds btis =
     concat
       [map (notable_mover tf)
            (take (kept_per_bucket tf) (ranked tf mt (base_native_metrics LOG10 bmds btis))).
          tf \<leftarrow> [Last_24h, Last_7d], mt \<leftarrow> [''gainer'', ''loser'']]"

section \<open>Theorems about the sync controller\<close>

lemma try_update_eq:
  "try_update a s =
     (if fetched a \<and> stored a then (cleaned a, s\<lparr>lastUpdateTime := clock a\<rparr>) else (False, s))"
  by (simp add: try_update_def Let_def)

lemma update_loop_all_fail:
  assumes "\<forall>k<MAX_RETRIES. \<not> (fetched (env k) \<and> stored (env k))"
  shows "update_loop env 0 s [] =
           (Inl (UpdateFailedAfterRetries 3), s,
            [Attempt 0, Sleep 300000, Attempt 1, Sleep 300000, Attempt 2])"
proof -
  have f: "try_update (env k) s = (False, s)" if "k < 3" for k
    using assms that by (auto simp: try_update_def MAX_RETRIES_def)
  show ?thesis
    by (simp add: f MAX_RETRIES_def RETRY_DELAY_def)
qed

lemma update_loop_three:
  assumes "try_update (env 0) s = (False, s0)"
    and "try_update (env (Suc 0)) s0 = (False, s1)"
    and "try_update (env (Suc (Suc 0))) s1 = (False, s2)"
  shows "update_loop env 0 s [] =
           (Inl (UpdateFailedAfterRetries 3), s2,
            [Attempt 0, Sleep 300000, Attempt 1, Sleep 300000, Attempt 2])"
  by (simp add: assms MAX_RETRIES_def RETRY_DELAY_def)

lemma failed_attempt:
  assumes "\<not> (fetched a \<and> stored a \<and> cleaned a)"
  shows "try_update a t =
           (False, if fetched a \<and> stored a then t\<lparr>lastUpdateTime := clock a\<rparr> else t)"
  using assms by (auto simp: try_update_eq)

lemma update_loop_every_attempt_fails:
  assumes "\<forall>k<MAX_RETRIES. \<not> (fetched (env k) \<and> stored (env k) \<and> cleaned (env k))"
  shows "fst (update_loop env 0 s []) = Inl (UpdateFailedAfterRetries 3) \<and>
         snd (snd (update_loop env 0 s [])) =
           [Attempt 0, Sleep 300000, Attempt 1, Sleep 300000, Attempt 2]"
proof -
  have f0: "\<not> (fetched (env 0) \<and> stored (env 0) \<and> cleaned (env 0))"
    and f1: "\<not> (fetched (env (Suc 0)) \<and> stored (env (Suc 0)) \<and> cleaned (env (Suc 0)))"
    and f2: "\<not> (fetched (env (Suc (Suc 0))) \<and> stored (env (Suc (Suc 0))) \<and>
                cleaned (env (Suc (Suc 0))))"
    using assms by (simp_all add: MAX_RETRIES_def)
  note three = update_loop_three
    [OF failed_attempt [OF f0] failed_attempt [OF f1] failed_attempt [OF f2]]
  show ?thesis
    unfolding three by simp
qed

lemma update_loop_last_store:
  assumes fail: "\<forall>j<MAX_RETRIES. \<not> (fetched (env j) \<and> stored (env j) \<and> cleaned (env j))"
    and k: "k < MAX_RETRIES" "fetched (env k)" "stored (env k)"
    and later: "\<forall>j<MAX_RETRIES. k < j \<longrightarrow> \<not> (fetched (env j) \<and> stored (env j))"
  shows "fst (snd (update_loop env 0 s [])) = s\<lparr>lastUpdateTime := clock (env k)\<rparr>"
proof -
  have f0: "\<not> (fetched (env 0) \<and> stored (env 0) \<and> cleaned (env 0))"
    and f1: "\<not> (fetched (env (Suc 0)) \<and> stored (env (Suc 0)) \<and> cleaned (env (Suc 0)))"
    and f2: "\<not> (fetched (env (Suc (Suc 0))) \<and> stored (env (Suc (Suc 0))) \<and>
                cleaned (env (Suc (Suc 0))))"
    using fail by (simp_all add: MAX_RETRIES_def)
  note three = update_loop_three
    [OF failed_attempt [OF f0] failed_attempt [OF f1] failed_attempt [OF f2]]
  have l1: "k < Suc 0 \<Longrightarrow> \<not> (fetched (env (Suc 0)) \<and> stored (env (Suc 0)))"
    and l2: "k < Suc (Suc 0) \<Longrightarrow> \<not> (fetched (env (Suc (Suc 0))) \<and> stored (env (Suc (Suc 0))))"
    using later by (simp_all add: MAX_RETRIES_def)
  from k(1) have "k = 0 \<or> k = Suc 0 \<or> k = Suc (Suc 0)"
    unfolding MAX_RETRIES_def by linarith
  then show ?thesis
  proof (elim disjE)
    assume "k = 0"
    with k l1 l2 show ?thesis
      unfolding three by auto
  next
    assume "k = Suc 0"
    with k l2 show ?thesis
      unfolding three by auto
  next
    assume "k = Suc (Suc 0)"
    with k show ?thesis
      unfolding three by simp
  qed
qed

lemma try_update_changes:
  "lastUpdateTime (snd (try_update a s)) \<noteq> lastUpdateTime s \<Longrightarrow> fetched a \<and> stored a"
  by (auto simp: try_update_def Let_def split: if_splits)

lemma update_loop_changes:
  "lastUpdateTime (fst (snd (update_loop env n s tr))) \<noteq> lastUpdateTime s
     \<Longrightarrow> \<exists>k<MAX_RETRIES. fetched (env k) \<and> stored (env k)"
proof (induction env n s tr rule: update_loop.induct)
  case (1 env retryCount s tr)
  show ?case
  proof (cases "retryCount < MAX_RETRIES")
    case False
    with "1.prems" show ?thesis by simp
  next
    case lt: True
    obtain b s' where tu: "try_update (env retryCount) s = (b, s')"
      by (cases "try_update (env retryCount) s")
    show ?thesis
    proof (cases "lastUpdateTime s' = lastUpdateTime s")
      case False
      with tu try_update_changes [of "env retryCount" s] lt show ?thesis by auto
    next
      case same: True
      show ?thesis
      proof (cases "\<not> b \<and> retryCount + 1 < MAX_RETRIES")
        case True
        then have b: "b = False" and lt2: "retryCount + 1 < MAX_RETRIES" by auto
        from "1.prems" lt tu same b lt2
        have "lastUpdateTime (fst (snd (update_loop env (retryCount + 1) s'
                (tr @ [Attempt retryCount, Sleep RETRY_DELAY])))) \<noteq> lastUpdateTime s'"
          by simp
        from "1.IH" [OF lt tu [symmetric] _ lt2 this] b show ?thesis by simp
      next
        case False
        with "1.prems" lt tu same show ?thesis
          by (cases b) (auto split: if_splits)
      qed
    qed
  qed
qed

text \<open>
  C4, amended. When every attempt of a cycle fails, \<^verbatim>\<open>updateMarketData\<close> makes exactly
  \<^verbatim>\<open>MAX_RETRIES\<close> = 3 attempts, sleeps \<^verbatim>\<open>RETRY_DELAY\<close> = 300000 ms between consecutive
  attempts (and not after the last) and throws. \<^verbatim>\<open>lastUpdateTime\<close> is assigned after the
  store and before \<^verbatim>\<open>cleanOldData\<close>: an attempt whose fetch or store fails leaves the
  service state as it was, an attempt that fetched and stored sets \<^verbatim>\<open>lastUpdateTime\<close> to
  its clock whether or not the cleanup then fails. So a failed cycle leaves the state
  unchanged when no attempt stored, and otherwise ends with the clock of the last attempt
  that stored; in any cycle \<^verbatim>\<open>lastUpdateTime\<close> differs afterwards only if some attempt
  fetched and stored.
\<close>

theorem C4_retry_exhaustion:
  "((\<forall>j<MAX_RETRIES. \<not> (fetched (env j) \<and> stored (env j) \<and> cleaned (env j))) \<longrightarrow>
      fst (updateMarketData env s) = Inl (UpdateFailedAfterRetries MAX_RETRIES) \<and>
      snd (snd (updateMarketData env s)) =
        [Attempt 0, Sleep RETRY_DELAY, Attempt 1, Sleep RETRY_DELAY, Attempt 2] \<and>
      ((\<forall>j<MAX_RETRIES. \<not> (fetched (env j) \<and> stored (env j))) \<longrightarrow>
         fst (snd (updateMarketData env s)) = s) \<and>
      (k < MAX_RETRIES \<and> fetched (env k) \<and> stored (env k) \<and>
       (\<forall>j<MAX_RETRIES. k < j \<longrightarrow> \<not> (fetched (env j) \<and> stored (env j))) \<longrightarrow>
         fst (snd (updateMarketData env s)) = s\<lparr>lastUpdateTime := clock (env k)\<rparr>)) \<and>
   MAX_RETRIES = 3 \<and> RETRY_DELAY = 5 * 60 * 1000 \<and>
   try_update a s =
     (if fetched a \<and> stored a then (cleaned a, s\<lparr>lastUpdateTime := clock a\<rparr>) else (False, s)) \<and>
   (lastUpdateTime (fst (snd (updateMarketData env s))) \<noteq> lastUpdateTime s \<longrightarrow>
      (\<exists>j<MAX_RETRIES. fetched (env j) \<and> stored (env j)))"
proof (intro conjI impI)
  assume fail: "\<forall>j<MAX_RETRIES. \<not> (fetched (env j) \<and> stored (env j) \<and> cleaned (env j))"
  from update_loop_every_attempt_fails [OF fail, of s]
  show "fst (updateMarketData env s) = Inl (UpdateFailedAfterRetries MAX_RETRIES)"
    and "snd (snd (updateMarketData env s)) =
        [Attempt 0, Sleep RETRY_DELAY, Attempt 1, Sleep RETRY_DELAY, Attempt 2]"
    by (simp_all add: updateMarketData_def MAX_RETRIES_def RETRY_DELAY_def)
  {
    assume "\<forall>j<MAX_RETRIES. \<not> (fetched (env j) \<and> stored (env j))"
    from update_loop_all_fail [OF this, of s]
    show "fst (snd (updateMarketData env s)) = s"
      by (simp add: updateMarketData_def)
  }
  {
    assume "k < MAX_RETRIES \<and> fetched (env k) \<and> stored (env k) \<and>
       (\<forall>j<MAX_RETRIES. k < j \<longrightarrow> \<not> (fetched (env j) \<and> stored (env j)))"
    then show "fst (snd (updateMarketData env s)) = s\<lparr>lastUpdateTime := clock (env k)\<rparr>"
      unfolding updateMarketData_def
      by (intro update_loop_last_store [OF fail]) simp_all
  }
next
  show "MAX_RETRIES = 3"
    by (simp add: MAX_RETRIES_def)
next
  show "RETRY_DELAY = 5 * 60 * 1000"
    by (simp add: RETRY_DELAY_def)
next
  show "try_update a s =
     (if fetched a \<and> stored a then (cleaned a, s\<lparr>lastUpdateTime := clock a\<rparr>) else (False, s))"
    by (rule try_update_eq)
next
  assume "lastUpdateTime (fst (snd (updateMarketData env s))) \<noteq> lastUpdateTime s"
  then show "\<exists>j<MAX_RETRIES. fetched (env j) \<and> stored (env j)"
    unfolding updateMarketData_def by (rule update_loop_changes)
qed

theorem C4_retry_exhaustion_witness:
  "updateMarketData (\<lambda>k. \<lparr>fetched = (k = 1), stored = False, cleaned = True, clock = 7\<rparr>)
       \<lparr>isUpdating = True, lastUpdateTime = 5\<rparr> =
     (Inl (UpdateFailedAfterRetries 3), \<lparr>isUpdating = True, lastUpdateTime = 5\<rparr>,
      [Attempt 0, Sleep 300000, Attempt 1, Sleep 300000, Attempt 2]) \<and>
   updateMarketData (\<lambda>k. \<lparr>fetched = True, stored = (k = 1), cleaned = False, clock = 7 + int k\<rparr>)
       \<lparr>isUpdating = True, lastUpdateTime = 5\<rparr> =
     (Inl (UpdateFailedAfterRetries 3), \<lparr>isUpdating = True, lastUpdateTime = 8\<rparr>,
      [Attempt 0, Sleep 300000, Attempt 1, Sleep 300000, Attempt 2])"
proof -
  have nothing_stored:
    "updateMarketData (\<lambda>k. \<lparr>fetched = (k = 1), stored = False, cleaned = True, clock = 7\<rparr>)
         \<lparr>isUpdating = True, lastUpdateTime = 5\<rparr> =
       (Inl (UpdateFailedAfterRetries 3), \<lparr>isUpdating = True, lastUpdateTime = 5\<rparr>,
        [Attempt 0, Sleep 300000, Attempt 1, Sleep 300000, Attempt 2])"
    using C4_retry_exhaustion
      [of "\<lambda>k. \<lparr>fetched = (k = 1), stored = False, cleaned = True, clock = 7\<rparr>"
          "\<lparr>isUpdating = True, lastUpdateTime = 5\<rparr>" 0
          "\<lparr>fetched = False, stored = False, cleaned = True, clock = 7\<rparr>"]
    apply (simp add: MAX_RETRIES_def RETRY_DELAY_def del: update_loop.simps)
    apply (simp add: prod_eq_iff del: update_loop.simps)
    done
  have second_stored:
    "updateMarketData (\<lambda>k. \<lparr>fetched = True, stored = (k = 1), cleaned = False, clock = 7 + int k\<rparr>)
         \<lparr>isUpdating = True, lastUpdateTime = 5\<rparr> =
       (Inl (UpdateFailedAfterRetries 3), \<lparr>isUpdating = True, lastUpdateTime = 8\<rparr>,
        [Attempt 0, Sleep 300000, Attempt 1, Sleep 300000, Attempt 2])"
    using C4_retry_exhaustion
      [of "\<lambda>k. \<lparr>fetched = True, stored = (k = 1), cleaned = False, clock = 7 + int k\<rparr>"
          "\<lparr>isUpdating = True, lastUpdateTime = 5\<rparr>" 1
          "\<lparr>fetched = True, stored = True, cleaned = False, clock = 8\<rparr>"]
    apply (simp add: MAX_RETRIES_def RETRY_DELAY_def del: update_loop.simps)
    apply (simp add: prod_eq_iff del: update_loop.simps)
    done
  from nothing_stored second_stored show ?thesis
    by (rule conjI)
qed

text \<open>
  C4 as stated fails for attempts that fail after the store: when the fetch and the store
  succeed and \<^verbatim>\<open>cleanOldData\<close> throws in each of the three attempts, the cycle ends with
  the error and \<^verbatim>\<open>lastUpdateTime\<close> has moved from 5 to the clock of the third attempt.
\<close>

theorem C4_failed_attempt_moves_lastUpdateTime_counterexample:
  "updateMarketData (\<lambda>k. \<lparr>fetched = True, stored = True, cleaned = False, clock = 1000 + int k\<rparr>)
       \<lparr>isUpdating = False, lastUpdateTime = 5\<rparr> =
     (Inl (UpdateFailedAfterRetries 3), \<lparr>isUpdating = False, lastUpdateTime = 1002\<rparr>,
      [Attempt 0, Sleep 300000, Attempt 1, Sleep 300000, Attempt 2])"
  by (simp add: updateMarketData_def try_update_def MAX_RETRIES_def RETRY_DELAY_def)

lemma reachable_invariant:
  "reachable sch \<Longrightarrow> inFlight sch \<le> 1 \<and> (isUpdating (service sch) \<longleftrightarrow> inFlight sch = 1)"
proof (induction rule: reachable.induct)
  case (init t0)
  show ?case by simp
next
  case (tick sch now)
  then show ?case by (auto simp: checkAndUpdate_def)
next
  case (store sch now)
  then show ?case by (simp add: storeSucceeded_def)
next
  case (settle sch)
  then show ?case by (auto simp: cycleSettled_def)
qed

text \<open>
  C7. In every state the scheduler can reach, a timer tick changes nothing (starts no
  cycle) when \<^verbatim>\<open>isUpdating\<close> is set or when less than \<^verbatim>\<open>MINIMUM_UPDATE_GAP\<close> = 3300000 ms
  (55 minutes) have passed since \<^verbatim>\<open>lastUpdateTime\<close>; and at most one cycle is in flight,
  before the tick and after it.
\<close>

theorem C7_no_overlap:
  assumes "reachable sch"
  shows "MINIMUM_UPDATE_GAP = 55 * 60 * 1000 \<and>
         (isUpdating (service sch) \<or> now - lastUpdateTime (service sch) < MINIMUM_UPDATE_GAP
            \<longrightarrow> checkAndUpdate now sch = sch) \<and>
         inFlight sch \<le> 1 \<and> inFlight (checkAndUpdate now sch) \<le> 1"
proof -
  have "reachable (checkAndUpdate now sch)"
    using assms by (rule reachable.tick)
  with assms reachable_invariant show ?thesis
    by (auto simp: checkAndUpdate_def MINIMUM_UPDATE_GAP_def)
qed

theorem C7_no_overlap_witness:
  "reachable \<lparr>service = \<lparr>isUpdating = True, lastUpdateTime = 0\<rparr>, inFlight = 1\<rparr> \<and>
   checkAndUpdate 9000000 \<lparr>service = \<lparr>isUpdating = True, lastUpdateTime = 0\<rparr>, inFlight = 1\<rparr>
     = \<lparr>service = \<lparr>isUpdating = True, lastUpdateTime = 0\<rparr>, inFlight = 1\<rparr> \<and>
   inFlight (checkAndUpdate 9000000
     \<lparr>service = \<lparr>isUpdating = True, lastUpdateTime = 0\<rparr>, inFlight = 1\<rparr>) \<le> 1"
proof -
  have "reachable (checkAndUpdate 4000000
          \<lparr>service = \<lparr>isUpdating = False, lastUpdateTime = 0\<rparr>, inFlight = 0\<rparr>)"
    by (rule reachable.tick) (rule reachable.init)
  then have r: "reachable \<lparr>service = \<lparr>isUpdating = True, lastUpdateTime = 0\<rparr>, inFlight = 1\<rparr>"
    by (simp add: checkAndUpdate_def MINIMUM_UPDATE_GAP_def)
  from C7_no_overlap [OF r, of 9000000] r show ?thesis
    by simp
qed

section \<open>Theorems about the enrichment queue\<close>

lemma iteration_apiKey: "apiKey (fst (iteration up st)) = apiKey (fst st)"
  by (auto simp: iteration_def fetchTokenInfo_def rateLimit_def handleRateLimit_def Let_def getApiKey_def
      split: prod.splits list.splits option.splits fetch_outcome.splits TokenInfoResponse.splits if_splits)

lemma getApiKey_iteration: "getApiKey (fst (iteration up st)) = getApiKey (fst st)"
  by (simp add: getApiKey_def iteration_apiKey)

lemma iteration_skip:
  assumes "requestQueue s = t # q" and "t = [] \<or> getApiKey s = None"
  shows "requestQueue (fst (iteration up (s, c))) = q \<and> requests (fst (iteration up (s, c))) = requests s"
  using assms
  by (auto simp: iteration_def fetchTokenInfo_def rateLimit_def Let_def getApiKey_def
      split: option.splits if_splits)

lemma iteration_done:
  assumes "requestQueue s = t # q" and "t \<noteq> []" and "getApiKey s \<noteq> None"
    and "up (requests s) t \<noteq> HttpError 429"
  shows "requestQueue (fst (iteration up (s, c))) = q"
  using assms
  by (auto simp: iteration_def fetchTokenInfo_def rateLimit_def Let_def getApiKey_def
      split: option.splits if_splits fetch_outcome.splits)

lemma iteration_requeue:
  assumes "requestQueue s = t # q" and "t \<noteq> []" and "getApiKey s \<noteq> None"
    and "up (requests s) t = HttpError 429"
  shows "requestQueue (fst (iteration up (s, c))) = t # q \<and>
         requests (fst (iteration up (s, c))) = requests s + 1"
  using assms
  by (auto simp: iteration_def fetchTokenInfo_def rateLimit_def handleRateLimit_def Let_def getApiKey_def
      split: option.splits if_splits fetch_outcome.splits)

lemma drain_head:
  assumes rest: "\<And>st'. requestQueue (fst st') = q \<Longrightarrow>
                   \<exists>st''. drain up st' = Some st'' \<and> requestQueue (fst st'') = []"
  shows "requestQueue s = t # q \<Longrightarrow> requests s \<le> m \<Longrightarrow> up m t \<noteq> HttpError 429
           \<Longrightarrow> \<exists>st''. drain up (s, c) = Some st'' \<and> requestQueue (fst st'') = []"
proof (induction "m - requests s" arbitrary: s c)
  case 0
  then have m: "m = requests s" by simp
  have "requestQueue (fst (iteration up (s, c))) = q"
  proof (cases "t = [] \<or> getApiKey s = None")
    case True
    with 0 iteration_skip show ?thesis by blast
  next
    case False
    with 0 m iteration_done show ?thesis by blast
  qed
  from rest [OF this] 0 show ?case
    by (subst drain.simps) simp
next
  case (Suc d)
  show ?case
  proof (cases "t = [] \<or> getApiKey s = None \<or> up (requests s) t \<noteq> HttpError 429")
    case True
    have "requestQueue (fst (iteration up (s, c))) = q"
    proof (cases "t = [] \<or> getApiKey s = None")
      case True
      with Suc.prems iteration_skip show ?thesis by blast
    next
      case False
      with True Suc.prems iteration_done show ?thesis by blast
    qed
    from rest [OF this] Suc.prems show ?thesis
      by (subst drain.simps) simp
  next
    case False
    then have rq: "requestQueue (fst (iteration up (s, c))) = t # q"
      and rn: "requests (fst (iteration up (s, c))) = requests s + 1"
      using Suc.prems iteration_requeue [of s t q up c] by auto
    obtain s1 c1 where it: "iteration up (s, c) = (s1, c1)"
      by (cases "iteration up (s, c)")
    from Suc.hyps rn it have "d = m - requests s1" by simp
    moreover from Suc.hyps rn it have "requests s1 \<le> m" by simp
    ultimately have "\<exists>st''. drain up (s1, c1) = Some st'' \<and> requestQueue (fst st'') = []"
      using Suc.hyps(1) [of s1 c1] rq it Suc.prems(3) by simp
    with it Suc.prems show ?thesis
      by (subst drain.simps) simp
  qed
qed

lemma drain_terminates:
  assumes "\<forall>tid\<in>set (requestQueue (fst st)). \<forall>n. \<exists>m\<ge>n. up m tid \<noteq> HttpError 429"
  shows "\<exists>st'. drain up st = Some st' \<and> requestQueue (fst st') = []"
  using assms
proof (induction "requestQueue (fst st)" arbitrary: st)
  case Nil
  then show ?case by (subst drain.simps) simp
next
  case (Cons t q)
  obtain s c where st: "st = (s, c)" by (cases st)
  with Cons.hyps(2) have rq: "requestQueue s = t # q" by simp
  with Cons.prems st obtain m where m: "requests s \<le> m" "up m t \<noteq> HttpError 429"
    by (metis fst_conv list.set_intros(1))
  have rest: "\<exists>st''. drain up st' = Some st'' \<and> requestQueue (fst st'') = []"
    if "requestQueue (fst st') = q" for st'
    using Cons.hyps(1) [of st'] that Cons.prems st rq by simp
  from drain_head [of q up s t m c, OF rest rq m] st show ?case by simp
qed

lemma drain_never:
  assumes always: "\<forall>n. up n t = HttpError 429" and ne: "t \<noteq> []"
    and inq: "t \<in> set (requestQueue (fst st))" and key: "getApiKey (fst st) \<noteq> None"
  shows "drain up st = None"
proof (rule ccontr)
  let ?P = "\<lambda>u x (y :: token_service \<times> bulk_counters).
              u = up \<longrightarrow> \<not> (t \<in> set (requestQueue (fst x)) \<and> getApiKey (fst x) \<noteq> None)"
  assume "drain up st \<noteq> None"
  then obtain y where y: "drain up st = Some y" by auto
  have step: "?P u x y'"
    if IH: "\<And>u x y. drain' u x = Some y \<Longrightarrow> ?P u x y"
      and eq: "(if requestQueue (fst x) = [] then Some x else drain' u (iteration u x)) = Some y'"
    for drain' u x y'
  proof (intro impI notI)
    assume u: "u = up" and inv: "t \<in> set (requestQueue (fst x)) \<and> getApiKey (fst x) \<noteq> None"
    obtain s c where x: "x = (s, c)" by (cases x)
    from inv x obtain h q where hq: "requestQueue s = h # q"
      by (cases "requestQueue s") auto
    have "t \<in> set (requestQueue (fst (iteration up (s, c))))"
    proof (cases "h = t")
      case True
      with hq ne inv x always iteration_requeue [of s t q up c] show ?thesis by simp
    next
      case False
      with hq inv x have tq: "t \<in> set q" by simp
      show ?thesis
      proof (cases "h \<noteq> [] \<and> up (requests s) h = HttpError 429")
        case True
        with hq inv x iteration_requeue [of s h q up c] tq show ?thesis by simp
      next
        case False
        then consider "h = []" | "h \<noteq> []" "up (requests s) h \<noteq> HttpError 429" by blast
        then show ?thesis
        proof cases
          case 1
          with hq iteration_skip [of s h q up c] tq show ?thesis by simp
        next
          case 2
          with hq inv x iteration_done [of s h q up c] tq show ?thesis by simp
        qed
      qed
    qed
    moreover have "getApiKey (fst (iteration up (s, c))) \<noteq> None"
      using inv x by (simp add: getApiKey_iteration)
    moreover from eq hq x u have "drain' up (iteration up (s, c)) = Some y'" by simp
    ultimately show False using IH by blast
  qed
  have "?P up st y"
    by (rule drain.raw_induct [where P = ?P, OF step y])
  with inq key show False by blast
qed


text \<open>
  C10. \<^verbatim>\<open>processBulkTokenInfo\<close> returns with an empty queue for every list of identifiers,
  provided that for each identifier of the list a request made at any later time eventually
  gets an outcome other than HTTP 429 (for the empty list the queue is left as it is, so it
  is empty if the service was idle). An identifier whose request gets 429 is back at the
  front of the queue after the pass through the loop body. If the requests for some
  non-empty identifier of the list get 429 every time, and the API key is set, the loop
  never ends.
\<close>

theorem C10_drain_termination:
  "((tokenIds = [] \<longrightarrow> requestQueue s = []) \<and>
    (\<forall>tid\<in>set tokenIds. \<forall>n. \<exists>m\<ge>n. upstream m tid \<noteq> HttpError 429)
      \<longrightarrow> (\<exists>s' r. processBulkTokenInfo upstream tokenIds s = Some (s', r) \<and> requestQueue s' = [])) \<and>
   (getApiKey s \<noteq> None \<and> tid \<noteq> [] \<and> upstream (requests s) tid = HttpError 429
      \<longrightarrow> requestQueue (fst (iteration upstream (s\<lparr>requestQueue := tid # q\<rparr>, c))) = tid # q) \<and>
   (getApiKey s \<noteq> None \<and> tid \<in> set tokenIds \<and> tid \<noteq> [] \<and> (\<forall>n. upstream n tid = HttpError 429)
      \<longrightarrow> processBulkTokenInfo upstream tokenIds s = None)"
proof (intro conjI impI)
  assume a: "(tokenIds = [] \<longrightarrow> requestQueue s = []) \<and>
    (\<forall>tid\<in>set tokenIds. \<forall>n. \<exists>m\<ge>n. upstream m tid \<noteq> HttpError 429)"
  show "\<exists>s' r. processBulkTokenInfo upstream tokenIds s = Some (s', r) \<and> requestQueue s' = []"
  proof (cases "tokenIds = []")
    case True
    with a show ?thesis by (simp add: processBulkTokenInfo_def)
  next
    case False
    let ?st = "(s\<lparr>requestQueue := tokenIds\<rparr>,
                \<lparr>successCount = 0, failureCount = 0, failedTokenIds = []\<rparr>)"
    from a have "\<forall>tid\<in>set (requestQueue (fst ?st)). \<forall>n. \<exists>m\<ge>n. upstream m tid \<noteq> HttpError 429"
      by simp
    from drain_terminates [OF this] obtain st' where
      "drain upstream ?st = Some st'" "requestQueue (fst st') = []" by blast
    with False show ?thesis
      by (cases st') (simp add: processBulkTokenInfo_def)
  qed
next
  assume "getApiKey s \<noteq> None \<and> tid \<noteq> [] \<and> upstream (requests s) tid = HttpError 429"
  then show "requestQueue (fst (iteration upstream (s\<lparr>requestQueue := tid # q\<rparr>, c))) = tid # q"
    using iteration_requeue [of "s\<lparr>requestQueue := tid # q\<rparr>" tid q upstream c]
    by (simp add: getApiKey_def)
next
  assume a: "getApiKey s \<noteq> None \<and> tid \<in> set tokenIds \<and> tid \<noteq> [] \<and> (\<forall>n. upstream n tid = HttpError 429)"
  let ?st = "(s\<lparr>requestQueue := tokenIds\<rparr>,
              \<lparr>successCount = 0, failureCount = 0, failedTokenIds = []\<rparr>)"
  from a have "drain upstream ?st = None"
    by (intro drain_never [of upstream tid]) (simp_all add: getApiKey_def)
  moreover from a have "tokenIds \<noteq> []" by auto
  ultimately show "processBulkTokenInfo upstream tokenIds s = None"
    by (simp add: processBulkTokenInfo_def)
qed

theorem C10_drain_termination_witness:
  "(\<exists>s' r. processBulkTokenInfo (\<lambda>n tid. if n < 2 then HttpError 429 else Stored) [''degen-base'']
              \<lparr>apiKey = Some ''key'', requestQueue = [], requests = 0, events = []\<rparr> = Some (s', r)
            \<and> requestQueue s' = []) \<and>
   requestQueue (fst (iteration (\<lambda>n tid. HttpError 429)
      (\<lparr>apiKey = Some ''key'', requestQueue = [''degen-base'', ''brett''], requests = 0, events = []\<rparr>,
       \<lparr>successCount = 0, failureCount = 0, failedTokenIds = []\<rparr>))) = [''degen-base'', ''brett''] \<and>
   processBulkTokenInfo (\<lambda>n tid. HttpError 429) [''degen-base'']
     \<lparr>apiKey = Some ''key'', requestQueue = [], requests = 0, events = []\<rparr> = None"
proof -
  let ?s = "\<lparr>apiKey = Some ''key'', requestQueue = [], requests = 0, events = []\<rparr>"
  let ?c = "\<lparr>successCount = 0, failureCount = 0, failedTokenIds = []\<rparr>"
  have ev: "\<forall>tid\<in>set [''degen-base'']. \<forall>n. \<exists>m\<ge>n. (if m < (2::nat) then HttpError 429 else Stored) \<noteq> HttpError 429"
  proof (intro ballI allI)
    fix tid :: string and n :: nat
    have "n \<le> n + 2 \<and> (if n + 2 < 2 then HttpError 429 else Stored) \<noteq> HttpError 429" by simp
    then show "\<exists>m\<ge>n. (if m < (2::nat) then HttpError 429 else Stored) \<noteq> HttpError 429" by blast
  qed
  have key: "getApiKey ?s \<noteq> None" by (simp add: getApiKey_def)
  from C10_drain_termination
         [of "[''degen-base'']" ?s "\<lambda>n tid. if n < 2 then HttpError 429 else Stored" "''x''" "[]" ?c] ev
  have 1: "\<exists>s' r. processBulkTokenInfo (\<lambda>n tid. if n < 2 then HttpError 429 else Stored)
             [''degen-base''] ?s = Some (s', r) \<and> requestQueue s' = []"
    by simp
  from C10_drain_termination
         [of "[''degen-base'']" ?s "\<lambda>n tid. HttpError 429" "''degen-base''" "[''brett'']" ?c] key
  have 2: "requestQueue (fst (iteration (\<lambda>n tid. HttpError 429)
             (?s\<lparr>requestQueue := [''degen-base'', ''brett'']\<rparr>, ?c))) = [''degen-base'', ''brett'']"
    and 3: "processBulkTokenInfo (\<lambda>n tid. HttpError 429) [''degen-base''] ?s = None"
    by simp_all
  from 1 2 3 show ?thesis by simp
qed

text \<open>
  C3. The code at a rate-limited request: the upstream answers the first request for
  \<^verbatim>\<open>degen-base\<close> with 429 and the second with data. The identifier is put back at the
  front after the 60000 ms wait and is fetched again, but the 429 outcome is counted:
  \<^verbatim>\<open>failureCount\<close> is 1 and the identifier is in \<^verbatim>\<open>failedTokenIds\<close>, although it was
  stored by the retry (\<^verbatim>\<open>successCount\<close> is 1 as well, for a list of one).
\<close>

theorem C3_rate_limit_counted_as_failure:
  "processBulkTokenInfo (\<lambda>n tid. if n = 0 then HttpError 429 else Stored) [''degen-base'']
     \<lparr>apiKey = Some ''key'', requestQueue = [], requests = 0, events = []\<rparr> =
   Some (\<lparr>apiKey = Some ''key'', requestQueue = [], requests = 2,
           events = [Dequeued ''degen-base'', Waited 2000, Requested ''degen-base'', Waited 60000,
                     Requeued ''degen-base'', Dequeued ''degen-base'', Waited 2000,
                     Requested ''degen-base'']\<rparr>,
         Some \<lparr>successCount = 1, failureCount = 1, failedTokenIds = [''degen-base'']\<rparr>)"
  by (simp add: processBulkTokenInfo_def drain.simps iteration_def fetchTokenInfo_def getApiKey_def
      rateLimit_def handleRateLimit_def DELAY_BETWEEN_REQUESTS_def RATE_LIMIT_def)

section \<open>Theorems about the fetch of plugin-base-market\<close>

lemma fetch_pages_full:
  assumes key: "market_getApiKey svc \<noteq> None"
  shows "(\<forall>p. s \<le> p \<and> p < s + n \<longrightarrow> (\<exists>d. upstream p = Page d \<and> length d = 250))
     \<Longrightarrow> upstream (s + n) = Page lastPage \<Longrightarrow> length lastPage < 250
     \<Longrightarrow> fetch_pages upstream svc acc s tr =
           Some (Inr (acc @ concat (map (\<lambda>p. page_data (upstream p)) [s..<s + n]) @ lastPage),
                 tr @ concat (map (\<lambda>p. [Request p, Delay 1100]) [s..<s + n]) @ [Request (s + n)])"
proof (induction n arbitrary: s acc tr)
  case 0
  with key show ?case
    by (subst fetch_pages.simps) (auto split: option.splits)
next
  case (Suc n)
  have "s \<le> s \<and> s < s + Suc n" by simp
  with Suc.prems(1) obtain d where d: "upstream s = Page d" "length d = 250"
    by blast
  have full: "\<forall>p. Suc s \<le> p \<and> p < Suc s + n \<longrightarrow> (\<exists>d. upstream p = Page d \<and> length d = 250)"
    using Suc.prems(1) by simp
  have last: "upstream (Suc s + n) = Page lastPage"
    using Suc.prems(2) by simp
  have upt: "[s..<Suc (s + n)] = s # [Suc s..<Suc (s + n)]"
    by (simp add: upt_conv_Cons del: upt_Suc)
  from key obtain k where k: "market_getApiKey svc = Some k" by auto
  have "fetch_pages upstream svc acc s tr =
        fetch_pages upstream svc (acc @ d) (Suc s) (tr @ [Request s, Delay 1100])"
    by (subst fetch_pages.simps) (simp add: k d)
  also have "\<dots> = Some (Inr ((acc @ d) @ concat (map (\<lambda>p. page_data (upstream p)) [Suc s..<Suc s + n]) @ lastPage),
                 (tr @ [Request s, Delay 1100]) @ concat (map (\<lambda>p. [Request p, Delay 1100]) [Suc s..<Suc s + n])
                   @ [Request (Suc s + n)])"
    by (rule Suc.IH [OF full last Suc.prems(3)])
  finally show ?case
    by (simp add: upt d page_data_def del: upt_Suc)
qed


lemma store_tokens_ok:
  "\<forall>tok\<in>set toks. \<not> run_throws schema tok \<Longrightarrow> \<exists>tbl'. store_tokens schema toks tbl = (Inr (), tbl')"
  by (induction toks arbitrary: tbl) (auto simp: insertOrIgnore_def)

text \<open>
  C5, amended. With an API key set, when the upstream answers the pages 1 to N with 250
  records each and page N + 1 with fewer, \<^verbatim>\<open>fetchMarketData\<close> requests exactly the pages
  1, ..., N + 1 in this order, waits 1100 ms after each of the N full pages and not after
  the last page, and hands the concatenation of all pages' records, each tagged with the
  category and the timestamp of the fetch, to the store. It returns these records when the
  store succeeds; when the store throws, it returns a failure response and the table is
  unchanged.
\<close>

theorem C5_pagination:
  assumes key: "market_getApiKey svc \<noteq> None"
    and full: "\<forall>p. 1 \<le> p \<and> p \<le> N \<longrightarrow> (\<exists>d. upstream p = Page d \<and> length d = 250)"
    and short: "upstream (N + 1) = Page lastPage" "length lastPage < 250"
  shows "\<exists>response tbl.
           fetchMarketData upstream now_ms schema cat svc =
             Some (response, svc\<lparr>base_market_data := tbl\<rparr>,
                   concat (map (\<lambda>p. [Request p, Delay 1100]) [1..<N + 1]) @ [Request (N + 1)]) \<and>
           (case base_storeMarketData schema
                   (map (\<lambda>tok. \<lparr>token = tok, category = cat, timestamp = now_ms div 1000\<rparr>)
                        (concat (map (\<lambda>p. page_data (upstream p)) [1..<N + 2])))
                   (base_market_data svc) of
              (Inr u, tbl') \<Rightarrow>
                 tbl = tbl' \<and>
                 response = FetchSuccess
                   (map (\<lambda>tok. \<lparr>token = tok, category = cat, timestamp = now_ms div 1000\<rparr>)
                        (concat (map (\<lambda>p. page_data (upstream p)) [1..<N + 2])))
            | (Inl e, tbl') \<Rightarrow>
                 tbl = base_market_data svc \<and> response = FetchFailure (MarketDatabaseError e))"
proof -
  have full': "\<forall>p. 1 \<le> p \<and> p < 1 + N \<longrightarrow> (\<exists>d. upstream p = Page d \<and> length d = 250)"
    using full by auto
  have last: "upstream (1 + N) = Page lastPage"
    using short(1) by (simp add: add.commute)
  have pages: "fetch_pages upstream svc [] 1 [] =
          Some (Inr ([] @ concat (map (\<lambda>p. page_data (upstream p)) [1..<1 + N]) @ lastPage),
                [] @ concat (map (\<lambda>p. [Request p, Delay 1100]) [1..<1 + N]) @ [Request (1 + N)])"
    by (rule fetch_pages_full [OF key full' last short(2)])
  define allTokens where "allTokens = concat (map (\<lambda>p. page_data (upstream p)) [1..<N + 2])"
  define tr where "tr = concat (map (\<lambda>p. [Request p, Delay 1100]) [1..<N + 1]) @ [Request (N + 1)]"
  define data where
    "data = map (\<lambda>tok. \<lparr>token = tok, category = cat, timestamp = now_ms div 1000\<rparr>) allTokens"
  have "allTokens = concat (map (\<lambda>p. page_data (upstream p)) [1..<1 + N]) @ lastPage"
    using short(1) by (simp add: allTokens_def page_data_def)
  with pages have fp: "fetch_pages upstream svc [] 1 [] = Some (Inr allTokens, tr)"
    by (simp add: tr_def)
  obtain r tbl where st: "base_storeMarketData schema data (base_market_data svc) = (r, tbl)"
    by (cases "base_storeMarketData schema data (base_market_data svc)")
  show ?thesis
  proof (cases r)
    case (Inl e)
    with st have "tbl = base_market_data svc"
      by (auto simp: base_storeMarketData_def transaction_def split: prod.splits sum.splits)
    with st Inl fp show ?thesis
      unfolding allTokens_def [symmetric] tr_def [symmetric] data_def [symmetric]
      by (simp add: fetchMarketData_def data_def [symmetric])
  next
    case (Inr u)
    with st fp show ?thesis
      unfolding allTokens_def [symmetric] tr_def [symmetric] data_def [symmetric]
      by (simp add: fetchMarketData_def data_def [symmetric])
  qed
qed


theorem C5_pagination_witness:
  "\<exists>tbl. fetchMarketData
     (\<lambda>p. if p = 1 then Page (replicate 250 \<lparr>bmd_id = ''degen-base'', bmd_current_price = Some (Finite 1),
                   bmd_market_cap = Some (Finite 2), bmd_total_volume = Some (Finite 3),
                   bmd_price_change_percentage_24h = None,
                   bmd_price_change_percentage_7d_in_currency = None\<rparr>)
          else Page [\<lparr>bmd_id = ''brett'', bmd_current_price = Some (Finite 1),
                   bmd_market_cap = Some (Finite 2), bmd_total_volume = Some (Finite 3),
                   bmd_price_change_percentage_24h = None,
                   bmd_price_change_percentage_7d_in_currency = None\<rparr>])
     1700000000123 \<lparr>run_throws = (\<lambda>tok. False), ignores = (\<lambda>tbl tok. False)\<rparr> ''base-meme-coins''
     \<lparr>market_apiKey = Some ''key'', base_market_data = []\<rparr> =
   Some (FetchSuccess
          (map (\<lambda>tok. \<lparr>token = tok, category = ''base-meme-coins'', timestamp = 1700000000\<rparr>)
            (replicate 250 \<lparr>bmd_id = ''degen-base'', bmd_current_price = Some (Finite 1),
                   bmd_market_cap = Some (Finite 2), bmd_total_volume = Some (Finite 3),
                   bmd_price_change_percentage_24h = None,
                   bmd_price_change_percentage_7d_in_currency = None\<rparr> @
             [\<lparr>bmd_id = ''brett'', bmd_current_price = Some (Finite 1),
                   bmd_market_cap = Some (Finite 2), bmd_total_volume = Some (Finite 3),
                   bmd_price_change_percentage_24h = None,
                   bmd_price_change_percentage_7d_in_currency = None\<rparr>])),
         \<lparr>market_apiKey = Some ''key'', base_market_data = tbl\<rparr>, [Request 1, Delay 1100, Request 2])"
proof -
  let ?a = "\<lparr>bmd_id = ''degen-base'', bmd_current_price = Some (Finite 1),
                   bmd_market_cap = Some (Finite 2), bmd_total_volume = Some (Finite 3),
                   bmd_price_change_percentage_24h = None,
                   bmd_price_change_percentage_7d_in_currency = None\<rparr>"
  let ?b = "\<lparr>bmd_id = ''brett'', bmd_current_price = Some (Finite 1),
                   bmd_market_cap = Some (Finite 2), bmd_total_volume = Some (Finite 3),
                   bmd_price_change_percentage_24h = None,
                   bmd_price_change_percentage_7d_in_currency = None\<rparr>"
  let ?up = "\<lambda>p::nat. if p = 1 then Page (replicate 250 ?a) else Page [?b]"
  let ?schema = "\<lparr>run_throws = (\<lambda>tok. False), ignores = (\<lambda>tbl tok. False)\<rparr>"
  let ?svc = "\<lparr>market_apiKey = Some ''key'', base_market_data = []\<rparr>"
  let ?data = "map (\<lambda>tok. \<lparr>token = tok, category = ''base-meme-coins'', timestamp = 1700000000\<rparr>)
                 (replicate 250 ?a @ [?b])"
  have key: "market_getApiKey ?svc \<noteq> None"
    by (simp add: market_getApiKey_def)
  have full: "\<forall>p. 1 \<le> p \<and> p \<le> 1 \<longrightarrow> (\<exists>d. ?up p = Page d \<and> length d = 250)"
    by auto
  have short: "?up (1 + 1) = Page [?b]" "length [?b] < 250"
    by simp_all
  have pd: "concat (map (\<lambda>p. page_data (?up p)) [1..<1 + 2]) = replicate 250 ?a @ [?b]"
    by (simp add: page_data_def upt_conv_Cons)
  have ts: "(1700000000123::int) div 1000 = 1700000000"
    by simp
  have "\<forall>tok\<in>set ?data. \<not> run_throws ?schema tok"
    by simp
  from store_tokens_ok [OF this, of "[]"] obtain tbl' where
    "store_tokens ?schema ?data [] = (Inr (), tbl')" by blast
  then have st: "base_storeMarketData ?schema ?data (base_market_data ?svc) = (Inr (), tbl')"
    by (simp add: base_storeMarketData_def transaction_def)
  show ?thesis
    using C5_pagination [OF key full short, of 1700000000123 ?schema "''base-meme-coins''"]
    unfolding pd ts st
    by (auto simp: upt_conv_Cons)
qed

text \<open>
  C5 as stated fails where the store throws: the upstream answers page 1 with one record
  (N = 0), the insert throws, and the fetch returns a database failure instead of the record.
\<close>

theorem C5_returns_records_counterexample:
  "fetchMarketData
     (\<lambda>p. Page [\<lparr>bmd_id = ''degen-base'', bmd_current_price = Some (Finite 1), bmd_market_cap = Some (Finite 2),
                   bmd_total_volume = Some (Finite 3), bmd_price_change_percentage_24h = None,
                   bmd_price_change_percentage_7d_in_currency = None\<rparr>])
     1700000000123 \<lparr>run_throws = (\<lambda>tok. True), ignores = (\<lambda>tbl tok. False)\<rparr> ''base-meme-coins''
     \<lparr>market_apiKey = Some ''key'', base_market_data = []\<rparr> =
   Some (FetchFailure (MarketDatabaseError StatementFailed),
         \<lparr>market_apiKey = Some ''key'', base_market_data = []\<rparr>, [Request 1])"
  by (simp add: fetchMarketData_def fetch_pages.simps market_getApiKey_def base_storeMarketData_def
      transaction_def insertOrIgnore_def)

section \<open>Theorems about the two store operations\<close>

lemma insertMarketData_lacks:
  "lacks_required item \<Longrightarrow> \<exists>e. insertMarketData lit now item db = Inl e"
  by (auto simp: lacks_required_def insertMarketData_def split: option.splits)

lemma store_items_fail:
  "\<exists>item\<in>set data. lacks_required item \<Longrightarrow> \<exists>e dbp. store_items lit now data db = (Inl e, dbp)"
proof (induction data arbitrary: db)
  case Nil
  then show ?case by simp
next
  case (Cons item data)
  show ?case
  proof (cases "insertMarketData lit now item (insertCoin item db)")
    case (Inl e)
    then show ?thesis by simp
  next
    case (Inr db')
    with insertMarketData_lacks [of item lit now "insertCoin item db"]
    have "\<not> lacks_required item" by auto
    with Cons.prems have "\<exists>item\<in>set data. lacks_required item" by simp
    from Cons.IH [OF this, of db'] Inr show ?thesis by simp
  qed
qed

lemma store_tokens_fail:
  "\<exists>tok\<in>set toks. run_throws schema tok
     \<Longrightarrow> \<exists>tblp. store_tokens schema toks tbl = (Inl StatementFailed, tblp)"
proof (induction toks arbitrary: tbl)
  case Nil
  then show ?case by simp
next
  case (Cons tok toks)
  show ?case
  proof (cases "run_throws schema tok")
    case True
    then show ?thesis by (simp add: insertOrIgnore_def)
  next
    case False
    with Cons.prems have "\<exists>tok\<in>set toks. run_throws schema tok" by simp
    from Cons.IH [OF this] False show ?thesis
      by (simp add: insertOrIgnore_def)
  qed
qed

lemma store_tokens_no_throw:
  "\<forall>tok\<in>set toks. \<not> run_throws schema tok
     \<Longrightarrow> store_tokens schema toks tbl =
           (Inr (), fold (\<lambda>tok t. if ignores schema t tok then t else t @ [tok]) toks tbl)"
  by (induction toks arbitrary: tbl) (simp_all add: insertOrIgnore_def)

lemma store_items_length:
  "store_items lit now data db = (Inr (), db')
     \<Longrightarrow> \<exists>rows. market_data db' = market_data db @ rows \<and> length rows = length data"
proof (induction data arbitrary: db)
  case Nil
  then show ?case by simp
next
  case (Cons item data)
  from Cons.prems obtain db1 where
    ins: "insertMarketData lit now item (insertCoin item db) = Inr db1"
    and rest: "store_items lit now data db1 = (Inr (), db')"
    by (auto split: sum.splits)
  from ins obtain row where row: "market_data db1 = market_data db @ [row]"
    by (auto simp: insertMarketData_def insertCoin_def split: option.splits if_splits)
  from Cons.IH [OF rest] obtain rows where
    "market_data db' = market_data db1 @ rows" "length rows = length data"
    by blast
  with row have "market_data db' = market_data db @ (row # rows) \<and>
                 length (row # rows) = length (item # data)"
    by simp
  then show ?case by blast
qed

lemma transaction_cases:
  "(\<exists>e dbp. body db = (Inl e, dbp) \<and> transaction body db = (Inl e, db)) \<or>
   (\<exists>db'. body db = (Inr (), db') \<and> transaction body db = (Inr (), db'))"
  by (cases "body db") (auto simp: transaction_def split: sum.splits)

text \<open>
  C6, amended. \<^verbatim>\<open>storeMarketData\<close> of the adapter is all-or-nothing: it either fails and
  leaves the database exactly as it was, or succeeds with one new \<^verbatim>\<open>market_data\<close> row for
  every record of the batch; whenever the loop over the batch throws, also after it has
  written rows, the caller gets that exception and the database is the one before the call;
  and a batch with a record that cannot be written makes the call fail.
  \<^verbatim>\<open>storeMarketData\<close> of plugin-base-market rolls back and fails when the statement throws
  for a row. But its statement is \<^verbatim>\<open>INSERT OR IGNORE\<close>: when no row throws, the call
  succeeds, and the table holds, in the order of the batch, the rows that violated no
  constraint; every row that did is skipped without a failure.
\<close>

theorem C6_store_is_atomic:
  "((\<exists>e. storeMarketData lit now data db = (Inl e, db)) \<or>
    (\<exists>db'. storeMarketData lit now data db = (Inr (), db') \<and>
           store_items lit now data db = (Inr (), db') \<and>
           (\<exists>rows. market_data db' = market_data db @ rows \<and> length rows = length data))) \<and>
   (store_items lit now data db = (Inl e, dbp) \<longrightarrow> storeMarketData lit now data db = (Inl e, db)) \<and>
   ((\<exists>item\<in>set data. lacks_required item) \<longrightarrow>
      (\<exists>e. storeMarketData lit now data db = (Inl e, db))) \<and>
   (store_tokens schema tokens tbl = (Inl e', tblp) \<longrightarrow>
      base_storeMarketData schema tokens tbl = (Inl e', tbl)) \<and>
   ((\<exists>tok\<in>set tokens. run_throws schema tok) \<longrightarrow>
      base_storeMarketData schema tokens tbl = (Inl StatementFailed, tbl)) \<and>
   ((\<forall>tok\<in>set tokens. \<not> run_throws schema tok) \<longrightarrow>
      base_storeMarketData schema tokens tbl =
        (Inr (), fold (\<lambda>tok t. if ignores schema t tok then t else t @ [tok]) tokens tbl))"
proof (intro conjI impI)
  show "(\<exists>e. storeMarketData lit now data db = (Inl e, db)) \<or>
    (\<exists>db'. storeMarketData lit now data db = (Inr (), db') \<and>
           store_items lit now data db = (Inr (), db') \<and>
           (\<exists>rows. market_data db' = market_data db @ rows \<and> length rows = length data))"
    using transaction_cases [of "store_items lit now data" db] store_items_length [of lit now data db]
    unfolding storeMarketData_def by auto
  show "storeMarketData lit now data db = (Inl e, db)" if "store_items lit now data db = (Inl e, dbp)"
    using that by (simp add: storeMarketData_def transaction_def)
  show "\<exists>e. storeMarketData lit now data db = (Inl e, db)" if "\<exists>item\<in>set data. lacks_required item"
    using store_items_fail [OF that, of lit now db]
    by (auto simp: storeMarketData_def transaction_def)
  show "base_storeMarketData schema tokens tbl = (Inl e', tbl)"
    if "store_tokens schema tokens tbl = (Inl e', tblp)"
    using that by (simp add: base_storeMarketData_def transaction_def)
  show "base_storeMarketData schema tokens tbl = (Inl StatementFailed, tbl)"
    if "\<exists>tok\<in>set tokens. run_throws schema tok"
    using store_tokens_fail [OF that, of tbl]
    by (auto simp: base_storeMarketData_def transaction_def)
  show "base_storeMarketData schema tokens tbl =
        (Inr (), fold (\<lambda>tok t. if ignores schema t tok then t else t @ [tok]) tokens tbl)"
    if "\<forall>tok\<in>set tokens. \<not> run_throws schema tok"
    using store_tokens_no_throw [OF that, of tbl]
    by (simp add: base_storeMarketData_def transaction_def)
qed

theorem C6_store_is_atomic_witness:
  "storeMarketData (\<lambda>t. None) ''2024-05-01T10:00:05.000Z''
     [\<lparr>item_id = ''degen-base'', item_symbol = ''degen'', item_name = ''Degen'',
        item_current_price = Some (Finite 1), item_market_cap = Some (Finite 2),
        item_total_volume = Some (Finite 3),
        item_market_cap_rank = None, item_price_change_percentage_1h = None,
        item_price_change_percentage_24h = None, item_price_change_percentage_7d = None,
        item_price_change_percentage_14d = None, item_price_change_percentage_30d = None,
        item_timestamp = ''2024-05-01T10:00:00.000Z'', item_coin_id = Some ''degen-base''\<rparr>,
      \<lparr>item_id = ''brett'', item_symbol = ''brett'', item_name = ''Brett'',
        item_current_price = Some (Finite 1), item_market_cap = Some (Finite 2),
        item_total_volume = Some (Finite 3),
        item_market_cap_rank = None, item_price_change_percentage_1h = None,
        item_price_change_percentage_24h = None, item_price_change_percentage_7d = None,
        item_price_change_percentage_14d = None, item_price_change_percentage_30d = None,
        item_timestamp = ''2024-05-01T10:00:00.000Z'', item_coin_id = None\<rparr>]
     \<lparr>coins = [], coin_categories = [], market_data = [], market_data_seq = 0\<rparr>
   = (Inl (MissingNamedParameter ''coin_id''), \<lparr>coins = [], coin_categories = [], market_data = [], market_data_seq = 0\<rparr>) \<and>
   base_storeMarketData
     \<lparr>run_throws = (\<lambda>tok. bmd_current_price (token tok) = None), ignores = (\<lambda>tbl tok. False)\<rparr>
     [\<lparr>token = \<lparr>bmd_id = ''degen-base'', bmd_current_price = Some (Finite 1),
                  bmd_market_cap = Some (Finite 2), bmd_total_volume = Some (Finite 3),
                  bmd_price_change_percentage_24h = None,
                  bmd_price_change_percentage_7d_in_currency = None\<rparr>,
         category = ''base-meme-coins'', timestamp = 1700000000\<rparr>,
      \<lparr>token = \<lparr>bmd_id = ''brett'', bmd_current_price = None,
                  bmd_market_cap = Some (Finite 2), bmd_total_volume = Some (Finite 3),
                  bmd_price_change_percentage_24h = None,
                  bmd_price_change_percentage_7d_in_currency = None\<rparr>,
         category = ''base-meme-coins'', timestamp = 1700000000\<rparr>] []
   = (Inl StatementFailed, []) \<and>
   base_storeMarketData
     \<lparr>run_throws = (\<lambda>tok. False),
       ignores = (\<lambda>tbl tok. bmd_current_price (token tok) = None \<or>
                    (bmd_id (token tok), timestamp tok, category tok)
                      \<in> set (map (\<lambda>row. (bmd_id (token row), timestamp row, category row)) tbl))\<rparr>
     [\<lparr>token = \<lparr>bmd_id = ''degen-base'', bmd_current_price = Some (Finite 1),
                  bmd_market_cap = Some (Finite 2), bmd_total_volume = Some (Finite 3),
                  bmd_price_change_percentage_24h = None,
                  bmd_price_change_percentage_7d_in_currency = None\<rparr>,
         category = ''base-meme-coins'', timestamp = 1700000000\<rparr>,
      \<lparr>token = \<lparr>bmd_id = ''brett'', bmd_current_price = Some (Finite 1),
                  bmd_market_cap = Some (Finite 2), bmd_total_volume = Some (Finite 3),
                  bmd_price_change_percentage_24h = None,
                  bmd_price_change_percentage_7d_in_currency = None\<rparr>,
         category = ''base-meme-coins'', timestamp = 1700000000\<rparr>] []
   = (Inr (),
      [\<lparr>token = \<lparr>bmd_id = ''degen-base'', bmd_current_price = Some (Finite 1),
                  bmd_market_cap = Some (Finite 2), bmd_total_volume = Some (Finite 3),
                  bmd_price_change_percentage_24h = None,
                  bmd_price_change_percentage_7d_in_currency = None\<rparr>,
         category = ''base-meme-coins'', timestamp = 1700000000\<rparr>,
      \<lparr>token = \<lparr>bmd_id = ''brett'', bmd_current_price = Some (Finite 1),
                  bmd_market_cap = Some (Finite 2), bmd_total_volume = Some (Finite 3),
                  bmd_price_change_percentage_24h = None,
                  bmd_price_change_percentage_7d_in_currency = None\<rparr>,
         category = ''base-meme-coins'', timestamp = 1700000000\<rparr>])"
proof -
  let ?data = "[\<lparr>item_id = ''degen-base'', item_symbol = ''degen'', item_name = ''Degen'',
        item_current_price = Some (Finite 1), item_market_cap = Some (Finite 2),
        item_total_volume = Some (Finite 3),
        item_market_cap_rank = None, item_price_change_percentage_1h = None,
        item_price_change_percentage_24h = None, item_price_change_percentage_7d = None,
        item_price_change_percentage_14d = None, item_price_change_percentage_30d = None,
        item_timestamp = ''2024-05-01T10:00:00.000Z'', item_coin_id = Some ''degen-base''\<rparr>,
      \<lparr>item_id = ''brett'', item_symbol = ''brett'', item_name = ''Brett'',
        item_current_price = Some (Finite 1), item_market_cap = Some (Finite 2),
        item_total_volume = Some (Finite 3),
        item_market_cap_rank = None, item_price_change_percentage_1h = None,
        item_price_change_percentage_24h = None, item_price_change_percentage_7d = None,
        item_price_change_percentage_14d = None, item_price_change_percentage_30d = None,
        item_timestamp = ''2024-05-01T10:00:00.000Z'', item_coin_id = None\<rparr>]"
  let ?db = "\<lparr>coins = [], coin_categories = [], market_data = [], market_data_seq = 0\<rparr>"
  let ?dbp = "\<lparr>coins = [\<lparr>c_id = ''degen-base'', c_symbol = ''degen'', c_name = ''Degen''\<rparr>,
                \<lparr>c_id = ''brett'', c_symbol = ''brett'', c_name = ''Brett''\<rparr>],
        coin_categories = [],
        market_data = [\<lparr>m_id = 1, m_coin_id = ''degen-base'', m_current_price = Finite 1,
           m_market_cap = Finite 2, m_total_volume = Finite 3,
           m_market_cap_rank = None, m_price_change_percentage_1h = None,
           m_price_change_percentage_24h = None, m_price_change_percentage_7d = None,
           m_price_change_percentage_14d = None, m_price_change_percentage_30d = None,
           m_price_change_percentage_200d = None,
           m_timestamp = SqlText ''2024-05-01T10:00:00.000Z'',
           m_data_source = ''coingecko''\<rparr>],
        market_data_seq = 1\<rparr>"
  let ?throwing = "\<lparr>run_throws = (\<lambda>tok. bmd_current_price (token tok) = None), ignores = (\<lambda>tbl tok. False)\<rparr>"
  let ?ignoring = "\<lparr>run_throws = (\<lambda>tok. False),
       ignores = (\<lambda>tbl tok. bmd_current_price (token tok) = None \<or>
                    (bmd_id (token tok), timestamp tok, category tok)
                      \<in> set (map (\<lambda>row. (bmd_id (token row), timestamp row, category row)) tbl))\<rparr>"
  let ?bad = "[\<lparr>token = \<lparr>bmd_id = ''degen-base'', bmd_current_price = Some (Finite 1),
                  bmd_market_cap = Some (Finite 2), bmd_total_volume = Some (Finite 3),
                  bmd_price_change_percentage_24h = None,
                  bmd_price_change_percentage_7d_in_currency = None\<rparr>,
         category = ''base-meme-coins'', timestamp = 1700000000\<rparr>,
      \<lparr>token = \<lparr>bmd_id = ''brett'', bmd_current_price = None,
                  bmd_market_cap = Some (Finite 2), bmd_total_volume = Some (Finite 3),
                  bmd_price_change_percentage_24h = None,
                  bmd_price_change_percentage_7d_in_currency = None\<rparr>,
         category = ''base-meme-coins'', timestamp = 1700000000\<rparr>]"
  let ?good = "[\<lparr>token = \<lparr>bmd_id = ''degen-base'', bmd_current_price = Some (Finite 1),
                  bmd_market_cap = Some (Finite 2), bmd_total_volume = Some (Finite 3),
                  bmd_price_change_percentage_24h = None,
                  bmd_price_change_percentage_7d_in_currency = None\<rparr>,
         category = ''base-meme-coins'', timestamp = 1700000000\<rparr>,
      \<lparr>token = \<lparr>bmd_id = ''brett'', bmd_current_price = Some (Finite 1),
                  bmd_market_cap = Some (Finite 2), bmd_total_volume = Some (Finite 3),
                  bmd_price_change_percentage_24h = None,
                  bmd_price_change_percentage_7d_in_currency = None\<rparr>,
         category = ''base-meme-coins'', timestamp = 1700000000\<rparr>]"
  let ?tblp = "[\<lparr>token = \<lparr>bmd_id = ''degen-base'', bmd_current_price = Some (Finite 1),
                  bmd_market_cap = Some (Finite 2), bmd_total_volume = Some (Finite 3),
                  bmd_price_change_percentage_24h = None,
                  bmd_price_change_percentage_7d_in_currency = None\<rparr>,
         category = ''base-meme-coins'', timestamp = 1700000000\<rparr>]"
  have body: "store_items (\<lambda>t. None) ''2024-05-01T10:00:05.000Z'' ?data ?db =
                (Inl (MissingNamedParameter ''coin_id''), ?dbp)"
    by (simp add: insertCoin_def insertMarketData_def numeric_affinity_def)
  have body': "store_tokens ?throwing ?bad [] = (Inl StatementFailed, ?tblp)"
    by (simp add: insertOrIgnore_def)
  have rolled_back:
    "storeMarketData (\<lambda>t. None) ''2024-05-01T10:00:05.000Z'' ?data ?db =
       (Inl (MissingNamedParameter ''coin_id''), ?db) \<and>
     base_storeMarketData ?throwing ?bad [] = (Inl StatementFailed, [])"
    using C6_store_is_atomic
      [of "\<lambda>t. None" "''2024-05-01T10:00:05.000Z''" ?data ?db "MissingNamedParameter ''coin_id''" ?dbp
          ?throwing ?bad "[]" StatementFailed ?tblp] body body'
    by simp
  have committed: "base_storeMarketData ?ignoring ?good [] = (Inr (), ?good)"
    using C6_store_is_atomic
      [of "\<lambda>t. None" "''2024-05-01T10:00:05.000Z''" "[]" ?db "MissingNamedParameter ''coin_id''" ?db
          ?ignoring ?good "[]" StatementFailed "[]"]
    by simp
  from rolled_back committed show ?thesis
    by simp
qed

text \<open>
  C6 as stated fails for plugin-base-market on a table that requires a price and keeps one
  row per asset, timestamp and category: in a batch of three rows the second has no price
  and the third repeats the first. Neither of the two is written, the first is committed,
  and the caller gets success: a part of the batch is applied.
\<close>

theorem C6_ignored_rows_counterexample:
  "base_storeMarketData
     \<lparr>run_throws = (\<lambda>tok. False),
       ignores = (\<lambda>tbl tok. bmd_current_price (token tok) = None \<or>
                    (bmd_id (token tok), timestamp tok, category tok)
                      \<in> set (map (\<lambda>row. (bmd_id (token row), timestamp row, category row)) tbl))\<rparr>
     [\<lparr>token = \<lparr>bmd_id = ''degen-base'', bmd_current_price = Some (Finite 1),
                  bmd_market_cap = Some (Finite 2), bmd_total_volume = Some (Finite 3),
                  bmd_price_change_percentage_24h = None,
                  bmd_price_change_percentage_7d_in_currency = None\<rparr>,
         category = ''base-meme-coins'', timestamp = 1700000000\<rparr>,
      \<lparr>token = \<lparr>bmd_id = ''brett'', bmd_current_price = None,
                  bmd_market_cap = Some (Finite 2), bmd_total_volume = Some (Finite 3),
                  bmd_price_change_percentage_24h = None,
                  bmd_price_change_percentage_7d_in_currency = None\<rparr>,
         category = ''base-meme-coins'', timestamp = 1700000000\<rparr>,
      \<lparr>token = \<lparr>bmd_id = ''degen-base'', bmd_current_price = Some (Finite 1),
                  bmd_market_cap = Some (Finite 2), bmd_total_volume = Some (Finite 3),
                  bmd_price_change_percentage_24h = None,
                  bmd_price_change_percentage_7d_in_currency = None\<rparr>,
         category = ''base-meme-coins'', timestamp = 1700000000\<rparr>] []
   = (Inr (),
      [\<lparr>token = \<lparr>bmd_id = ''degen-base'', bmd_current_price = Some (Finite 1),
                  bmd_market_cap = Some (Finite 2), bmd_total_volume = Some (Finite 3),
                  bmd_price_change_percentage_24h = None,
                  bmd_price_change_percentage_7d_in_currency = None\<rparr>,
         category = ''base-meme-coins'', timestamp = 1700000000\<rparr>])"
  by (simp add: base_storeMarketData_def transaction_def insertOrIgnore_def)

lemma insertCoin_ids:
  "set (map c_id (coins (insertCoin item db))) = insert (item_id item) (set (map c_id (coins db)))"
  by (auto simp: insertCoin_def)

lemma insertCoin_market_data:
  "market_data (insertCoin item db) = market_data db"
  by (simp add: insertCoin_def)

lemma insertCoin_noop:
  "item_id item \<in> set (map c_id (coins db)) \<Longrightarrow> insertCoin item db = db"
  by (simp add: insertCoin_def)

lemma insertMarketData_Inr:
  assumes "insertMarketData lit now item db = Inr db'"
  shows "coins db' = coins db"
    and "\<exists>row. market_data db' = market_data db @ [row] \<and> Some (m_coin_id row) = item_coin_id item \<and>
           m_timestamp row = numeric_affinity lit (if item_timestamp item = [] then now else item_timestamp item)"
    and "\<not> lacks_required item"
    and "\<exists>c. item_coin_id item = Some c \<and> c \<in> set (map c_id (coins db))"
  using assms
  by (auto simp: insertMarketData_def lacks_required_def split: option.splits if_splits)

lemma insertMarketData_ok:
  assumes "\<not> lacks_required item" and "item_coin_id item = Some c" and "c \<in> set (map c_id (coins db))"
  shows "\<exists>db'. insertMarketData lit now item db = Inr db'"
  using assms
  by (auto simp: insertMarketData_def lacks_required_def split: option.splits)

lemma store_items_Inr:
  "store_items lit now data db = (Inr (), db') \<Longrightarrow>
     set (map c_id (coins db')) = set (map c_id (coins db)) \<union> set (map item_id data) \<and>
     (\<exists>rows. market_data db' = market_data db @ rows \<and>
             map (\<lambda>m. Some (m_coin_id m)) rows = map item_coin_id data \<and>
             map m_timestamp rows =
               map (\<lambda>item. numeric_affinity lit (if item_timestamp item = [] then now else item_timestamp item)) data)"
proof (induction data arbitrary: db)
  case Nil
  then show ?case by simp
next
  case (Cons item data)
  from Cons.prems obtain db1 where
    ins: "insertMarketData lit now item (insertCoin item db) = Inr db1"
    and rest: "store_items lit now data db1 = (Inr (), db')"
    by (auto split: sum.splits)
  from insertMarketData_Inr(1,2) [OF ins] obtain row where
    c1: "coins db1 = coins (insertCoin item db)"
    and row: "market_data db1 = market_data db @ [row]" "Some (m_coin_id row) = item_coin_id item"
      "m_timestamp row = numeric_affinity lit (if item_timestamp item = [] then now else item_timestamp item)"
    by (auto simp: insertCoin_market_data)
  from Cons.IH [OF rest] obtain rows where
    ids: "set (map c_id (coins db')) = set (map c_id (coins db1)) \<union> set (map item_id data)"
    and rows: "market_data db' = market_data db1 @ rows"
      "map (\<lambda>m. Some (m_coin_id m)) rows = map item_coin_id data"
      "map m_timestamp rows =
         map (\<lambda>item. numeric_affinity lit (if item_timestamp item = [] then now else item_timestamp item)) data"
    by blast
  have "set (map c_id (coins db')) = set (map c_id (coins db)) \<union> set (map item_id (item # data))"
    using ids c1 insertCoin_ids [of item db] by auto
  moreover have "market_data db' = market_data db @ (row # rows) \<and>
      map (\<lambda>m. Some (m_coin_id m)) (row # rows) = map item_coin_id (item # data) \<and>
      map m_timestamp (row # rows) =
        map (\<lambda>item. numeric_affinity lit (if item_timestamp item = [] then now else item_timestamp item)) (item # data)"
    using row rows by simp
  ultimately show ?case by blast
qed

lemma store_items_succeeds_again:
  "store_items lit now data dbA = (Inr (), dbA') \<Longrightarrow>
     set (map c_id (coins dbA)) \<subseteq> set (map c_id (coins dbB)) \<Longrightarrow>
     \<exists>dbB'. store_items lit now' data dbB = (Inr (), dbB')"
proof (induction data arbitrary: dbA dbB)
  case Nil
  then show ?case by simp
next
  case (Cons item data)
  from Cons.prems(1) obtain dbA1 where
    ins: "insertMarketData lit now item (insertCoin item dbA) = Inr dbA1"
    and rest: "store_items lit now data dbA1 = (Inr (), dbA')"
    by (auto split: sum.splits)
  from insertMarketData_Inr(3,4) [OF ins] obtain c where
    ok: "\<not> lacks_required item" and c: "item_coin_id item = Some c"
      "c \<in> set (map c_id (coins (insertCoin item dbA)))"
    by blast
  have sub: "set (map c_id (coins (insertCoin item dbA))) \<subseteq> set (map c_id (coins (insertCoin item dbB)))"
    using Cons.prems(2) unfolding insertCoin_ids by blast
  with c have "c \<in> set (map c_id (coins (insertCoin item dbB)))" by blast
  from insertMarketData_ok [OF ok c(1) this] obtain dbB1 where
    insB: "insertMarketData lit now' item (insertCoin item dbB) = Inr dbB1" by blast
  have "set (map c_id (coins dbA1)) \<subseteq> set (map c_id (coins dbB1))"
    using sub insertMarketData_Inr(1) [OF ins] insertMarketData_Inr(1) [OF insB] by simp
  from Cons.IH [OF rest this] insB show ?case by simp
qed

lemma store_items_coins_kept:
  "store_items lit now data db = (Inr (), db') \<Longrightarrow>
     set (map item_id data) \<subseteq> set (map c_id (coins db)) \<Longrightarrow> coins db' = coins db"
proof (induction data arbitrary: db)
  case Nil
  then show ?case by simp
next
  case (Cons item data)
  from Cons.prems(2) have noop: "insertCoin item db = db"
    by (intro insertCoin_noop) simp
  with Cons.prems(1) obtain db1 where
    ins: "insertMarketData lit now item db = Inr db1"
    and rest: "store_items lit now data db1 = (Inr (), db')"
    by (auto split: sum.splits)
  have c1: "coins db1 = coins db"
    by (rule insertMarketData_Inr(1) [OF ins])
  with Cons.prems(2) have "set (map item_id data) \<subseteq> set (map c_id (coins db1))" by simp
  from Cons.IH [OF rest this] c1 show ?case by simp
qed

text \<open>
  C1, amended. Calling \<^verbatim>\<open>storeMarketData\<close> twice with the same batch leaves the table
  \<^verbatim>\<open>coins\<close> as one call does (\<^verbatim>\<open>INSERT OR IGNORE\<close>: an existing coin is never
  overwritten). \<^verbatim>\<open>market_data\<close> is append-only: when the first call succeeds, so does the
  second, each call appends one row per record after the rows that were there, and the rows
  of the second call repeat the \<^verbatim>\<open>coin_id\<close> of the rows of the first (and their
  \<^verbatim>\<open>timestamp\<close>, where the record carries one; the column stores it under its NUMERIC
  affinity). When the first call fails, both calls leave the database as it was.
\<close>

theorem C1_store_twice:
  assumes first: "storeMarketData lit now data db = (r1, db1)"
    and second: "storeMarketData lit now' data db1 = (r2, db2)"
  shows "coins db2 = coins db1 \<and>
         (r1 = Inr () \<longrightarrow>
            r2 = Inr () \<and>
            (\<exists>rows1 rows2.
               market_data db1 = market_data db @ rows1 \<and>
               market_data db2 = market_data db1 @ rows2 \<and>
               length rows1 = length data \<and> length rows2 = length data \<and>
               map m_coin_id rows2 = map m_coin_id rows1 \<and>
               map m_timestamp rows1 =
                 map (\<lambda>item. numeric_affinity lit (if item_timestamp item = [] then now else item_timestamp item)) data \<and>
               map m_timestamp rows2 =
                 map (\<lambda>item. numeric_affinity lit (if item_timestamp item = [] then now' else item_timestamp item)) data)) \<and>
         ((\<exists>e. r1 = Inl e) \<longrightarrow> db1 = db \<and> db2 = db)"
proof (cases r1)
  case (Inl e)
  with first have db1: "db1 = db" and f: "\<exists>dbp. store_items lit now data db = (Inl e, dbp)"
    by (auto simp: storeMarketData_def transaction_def split: prod.splits sum.splits)
  have "\<nexists>db'. store_items lit now' data db = (Inr (), db')"
  proof
    assume "\<exists>db'. store_items lit now' data db = (Inr (), db')"
    then obtain db' where "store_items lit now' data db = (Inr (), db')" by blast
    from store_items_succeeds_again [OF this, of db now] f show False by auto
  qed
  with second db1 have "db2 = db"
    by (auto simp: storeMarketData_def transaction_def split: prod.splits sum.splits)
  with db1 Inl show ?thesis by simp
next
  case (Inr u)
  with first have s1: "store_items lit now data db = (Inr (), db1)"
    by (auto simp: storeMarketData_def transaction_def split: prod.splits sum.splits)
  from store_items_Inr [OF s1] obtain rows1 where
    ids1: "set (map c_id (coins db1)) = set (map c_id (coins db)) \<union> set (map item_id data)"
    and rows1: "market_data db1 = market_data db @ rows1"
      "map (\<lambda>m. Some (m_coin_id m)) rows1 = map item_coin_id data"
      "map m_timestamp rows1 =
         map (\<lambda>item. numeric_affinity lit (if item_timestamp item = [] then now else item_timestamp item)) data"
    by blast
  from ids1 have sub: "set (map c_id (coins db)) \<subseteq> set (map c_id (coins db1))" by blast
  from store_items_succeeds_again [OF s1 sub] obtain db2' where
    s2: "store_items lit now' data db1 = (Inr (), db2')" by blast
  with second have r2: "r2 = Inr ()" and db2: "db2 = db2'"
    by (auto simp: storeMarketData_def transaction_def)
  from ids1 have "set (map item_id data) \<subseteq> set (map c_id (coins db1))" by blast
  from store_items_coins_kept [OF s2 this] db2 have coins: "coins db2 = coins db1" by simp
  from store_items_Inr [OF s2] db2 obtain rows2 where
    rows2: "market_data db2 = market_data db1 @ rows2"
      "map (\<lambda>m. Some (m_coin_id m)) rows2 = map item_coin_id data"
      "map m_timestamp rows2 =
         map (\<lambda>item. numeric_affinity lit (if item_timestamp item = [] then now' else item_timestamp item)) data"
    by blast
  have len: "length rows1 = length data" "length rows2 = length data"
    using rows1(2) rows2(2) by (metis length_map)+
  have "map (\<lambda>m. Some (m_coin_id m)) rows2 = map (\<lambda>m. Some (m_coin_id m)) rows1"
    using rows1(2) rows2(2) by simp
  then have "map (Some \<circ> m_coin_id) rows2 = map (Some \<circ> m_coin_id) rows1"
    by (simp add: comp_def)
  then have same: "map m_coin_id rows2 = map m_coin_id rows1"
    by (simp add: map_map [symmetric] inj_map_eq_map del: map_map)
  from coins r2 rows1 rows2 len same Inr show ?thesis by blast
qed


theorem C1_store_twice_witness:
  "fst (storeMarketData (\<lambda>t. None) ''2024-05-01T10:00:05.000Z''
       [\<lparr>item_id = ''degen-base'', item_symbol = ''degen'', item_name = ''Degen'',
        item_current_price = Some (Finite 1), item_market_cap = Some (Finite 2), item_total_volume = Some (Finite 3),
        item_market_cap_rank = None, item_price_change_percentage_1h = None,
        item_price_change_percentage_24h = None, item_price_change_percentage_7d = None,
        item_price_change_percentage_14d = None, item_price_change_percentage_30d = None,
        item_timestamp = ''2024-05-01T10:00:00.000Z'', item_coin_id = Some ''degen-base''\<rparr>]
       \<lparr>coins = [], coin_categories = [], market_data = [], market_data_seq = 0\<rparr>) = Inr () \<and>
   fst (storeMarketData (\<lambda>t. None) ''2024-05-01T11:00:05.000Z''
       [\<lparr>item_id = ''degen-base'', item_symbol = ''degen'', item_name = ''Degen'',
        item_current_price = Some (Finite 1), item_market_cap = Some (Finite 2), item_total_volume = Some (Finite 3),
        item_market_cap_rank = None, item_price_change_percentage_1h = None,
        item_price_change_percentage_24h = None, item_price_change_percentage_7d = None,
        item_price_change_percentage_14d = None, item_price_change_percentage_30d = None,
        item_timestamp = ''2024-05-01T10:00:00.000Z'', item_coin_id = Some ''degen-base''\<rparr>]
       (snd (storeMarketData (\<lambda>t. None) ''2024-05-01T10:00:05.000Z''
          [\<lparr>item_id = ''degen-base'', item_symbol = ''degen'', item_name = ''Degen'',
        item_current_price = Some (Finite 1), item_market_cap = Some (Finite 2), item_total_volume = Some (Finite 3),
        item_market_cap_rank = None, item_price_change_percentage_1h = None,
        item_price_change_percentage_24h = None, item_price_change_percentage_7d = None,
        item_price_change_percentage_14d = None, item_price_change_percentage_30d = None,
        item_timestamp = ''2024-05-01T10:00:00.000Z'', item_coin_id = Some ''degen-base''\<rparr>]
          \<lparr>coins = [], coin_categories = [], market_data = [], market_data_seq = 0\<rparr>))) = Inr () \<and>
   coins (snd (storeMarketData (\<lambda>t. None) ''2024-05-01T11:00:05.000Z''
       [\<lparr>item_id = ''degen-base'', item_symbol = ''degen'', item_name = ''Degen'',
        item_current_price = Some (Finite 1), item_market_cap = Some (Finite 2), item_total_volume = Some (Finite 3),
        item_market_cap_rank = None, item_price_change_percentage_1h = None,
        item_price_change_percentage_24h = None, item_price_change_percentage_7d = None,
        item_price_change_percentage_14d = None, item_price_change_percentage_30d = None,
        item_timestamp = ''2024-05-01T10:00:00.000Z'', item_coin_id = Some ''degen-base''\<rparr>]
       (snd (storeMarketData (\<lambda>t. None) ''2024-05-01T10:00:05.000Z''
          [\<lparr>item_id = ''degen-base'', item_symbol = ''degen'', item_name = ''Degen'',
        item_current_price = Some (Finite 1), item_market_cap = Some (Finite 2), item_total_volume = Some (Finite 3),
        item_market_cap_rank = None, item_price_change_percentage_1h = None,
        item_price_change_percentage_24h = None, item_price_change_percentage_7d = None,
        item_price_change_percentage_14d = None, item_price_change_percentage_30d = None,
        item_timestamp = ''2024-05-01T10:00:00.000Z'', item_coin_id = Some ''degen-base''\<rparr>]
          \<lparr>coins = [], coin_categories = [], market_data = [], market_data_seq = 0\<rparr>))))
   = coins (snd (storeMarketData (\<lambda>t. None) ''2024-05-01T10:00:05.000Z''
       [\<lparr>item_id = ''degen-base'', item_symbol = ''degen'', item_name = ''Degen'',
        item_current_price = Some (Finite 1), item_market_cap = Some (Finite 2), item_total_volume = Some (Finite 3),
        item_market_cap_rank = None, item_price_change_percentage_1h = None,
        item_price_change_percentage_24h = None, item_price_change_percentage_7d = None,
        item_price_change_percentage_14d = None, item_price_change_percentage_30d = None,
        item_timestamp = ''2024-05-01T10:00:00.000Z'', item_coin_id = Some ''degen-base''\<rparr>]
       \<lparr>coins = [], coin_categories = [], market_data = [], market_data_seq = 0\<rparr>))"
proof -
  let ?x = "\<lparr>item_id = ''degen-base'', item_symbol = ''degen'', item_name = ''Degen'',
        item_current_price = Some (Finite 1), item_market_cap = Some (Finite 2), item_total_volume = Some (Finite 3),
        item_market_cap_rank = None, item_price_change_percentage_1h = None,
        item_price_change_percentage_24h = None, item_price_change_percentage_7d = None,
        item_price_change_percentage_14d = None, item_price_change_percentage_30d = None,
        item_timestamp = ''2024-05-01T10:00:00.000Z'', item_coin_id = Some ''degen-base''\<rparr>"
  let ?db = "\<lparr>coins = [], coin_categories = [], market_data = [], market_data_seq = 0\<rparr>"
  let ?once = "storeMarketData (\<lambda>t. None) ''2024-05-01T10:00:05.000Z'' [?x] ?db"
  let ?twice = "storeMarketData (\<lambda>t. None) ''2024-05-01T11:00:05.000Z'' [?x] (snd ?once)"
  have 1: "?once = (fst ?once, snd ?once)" and 2: "?twice = (fst ?twice, snd ?twice)"
    by simp_all
  have ok: "fst ?once = Inr ()"
    by (simp add: storeMarketData_def transaction_def insertCoin_def insertMarketData_def)
  from C1_store_twice [OF 1 2] ok show ?thesis
    by blast
qed

text \<open>
  C1 as stated fails: the insert into \<^verbatim>\<open>market_data\<close> is a plain \<^verbatim>\<open>INSERT\<close> and the table
  has no key but its auto-increment id, so storing a batch of one record twice leaves two
  rows for the same coin and timestamp, under the ids 1 and 2. The timestamp of the record
  is not a numeric literal, so it is stored as text.
\<close>

theorem C1_idempotent_counterexample:
  "snd (storeMarketData (\<lambda>t. None) ''2024-05-01T10:00:05.000Z''
       [\<lparr>item_id = ''degen-base'', item_symbol = ''degen'', item_name = ''Degen'',
        item_current_price = Some (Finite 1), item_market_cap = Some (Finite 2), item_total_volume = Some (Finite 3),
        item_market_cap_rank = None, item_price_change_percentage_1h = None,
        item_price_change_percentage_24h = None, item_price_change_percentage_7d = None,
        item_price_change_percentage_14d = None, item_price_change_percentage_30d = None,
        item_timestamp = ''2024-05-01T10:00:00.000Z'', item_coin_id = Some ''degen-base''\<rparr>]
       (snd (storeMarketData (\<lambda>t. None) ''2024-05-01T10:00:05.000Z''
          [\<lparr>item_id = ''degen-base'', item_symbol = ''degen'', item_name = ''Degen'',
        item_current_price = Some (Finite 1), item_market_cap = Some (Finite 2), item_total_volume = Some (Finite 3),
        item_market_cap_rank = None, item_price_change_percentage_1h = None,
        item_price_change_percentage_24h = None, item_price_change_percentage_7d = None,
        item_price_change_percentage_14d = None, item_price_change_percentage_30d = None,
        item_timestamp = ''2024-05-01T10:00:00.000Z'', item_coin_id = Some ''degen-base''\<rparr>]
          \<lparr>coins = [], coin_categories = [], market_data = [], market_data_seq = 0\<rparr>)))
   \<noteq> snd (storeMarketData (\<lambda>t. None) ''2024-05-01T10:00:05.000Z''
       [\<lparr>item_id = ''degen-base'', item_symbol = ''degen'', item_name = ''Degen'',
        item_current_price = Some (Finite 1), item_market_cap = Some (Finite 2), item_total_volume = Some (Finite 3),
        item_market_cap_rank = None, item_price_change_percentage_1h = None,
        item_price_change_percentage_24h = None, item_price_change_percentage_7d = None,
        item_price_change_percentage_14d = None, item_price_change_percentage_30d = None,
        item_timestamp = ''2024-05-01T10:00:00.000Z'', item_coin_id = Some ''degen-base''\<rparr>]
       \<lparr>coins = [], coin_categories = [], market_data = [], market_data_seq = 0\<rparr>) \<and>
   map (\<lambda>m. (m_id m, m_coin_id m, m_timestamp m))
     (market_data (snd (storeMarketData (\<lambda>t. None) ''2024-05-01T10:00:05.000Z''
       [\<lparr>item_id = ''degen-base'', item_symbol = ''degen'', item_name = ''Degen'',
        item_current_price = Some (Finite 1), item_market_cap = Some (Finite 2), item_total_volume = Some (Finite 3),
        item_market_cap_rank = None, item_price_change_percentage_1h = None,
        item_price_change_percentage_24h = None, item_price_change_percentage_7d = None,
        item_price_change_percentage_14d = None, item_price_change_percentage_30d = None,
        item_timestamp = ''2024-05-01T10:00:00.000Z'', item_coin_id = Some ''degen-base''\<rparr>]
       (snd (storeMarketData (\<lambda>t. None) ''2024-05-01T10:00:05.000Z''
          [\<lparr>item_id = ''degen-base'', item_symbol = ''degen'', item_name = ''Degen'',
        item_current_price = Some (Finite 1), item_market_cap = Some (Finite 2), item_total_volume = Some (Finite 3),
        item_market_cap_rank = None, item_price_change_percentage_1h = None,
        item_price_change_percentage_24h = None, item_price_change_percentage_7d = None,
        item_price_change_percentage_14d = None, item_price_change_percentage_30d = None,
        item_timestamp = ''2024-05-01T10:00:00.000Z'', item_coin_id = Some ''degen-base''\<rparr>]
          \<lparr>coins = [], coin_categories = [], market_data = [], market_data_seq = 0\<rparr>)))))
   = [(1, ''degen-base'', SqlText ''2024-05-01T10:00:00.000Z''),
      (2, ''degen-base'', SqlText ''2024-05-01T10:00:00.000Z'')]"
  by (simp add: storeMarketData_def transaction_def insertCoin_def insertMarketData_def
        numeric_affinity_def)

section \<open>Theorems about the analytics queries\<close>

lemma set_insort_desc: "set (insort_desc key x xs) = insert x (set xs)"
  by (induction xs) auto

lemma set_order_by_desc: "set (order_by_desc key xs) = set xs"
  unfolding order_by_desc_def by (induction xs) (simp_all add: set_insort_desc)

lemma set_sql_limit: "set (sql_limit n xs) \<subseteq> set xs"
  by (auto simp: sql_limit_def dest: in_set_takeD)


lemma sorted_insort_desc:
  fixes key :: "'a \<Rightarrow> 'k::linorder"
  shows "sorted_wrt (\<lambda>a b. key b \<le> key a) xs
    \<Longrightarrow> sorted_wrt (\<lambda>a b. key b \<le> key a) (insort_desc key x xs)"
proof (induction xs)
  case Nil
  show ?case by simp
next
  case (Cons y ys)
  then have tail: "sorted_wrt (\<lambda>a b. key b \<le> key a) (insort_desc key x ys)"
    and below: "\<forall>z\<in>set ys. key z \<le> key y"
    by simp_all
  show ?case
  proof (cases "key y \<le> key x")
    case True
    with below have "\<forall>z\<in>set (y # ys). key z \<le> key x"
      by (auto intro: order_trans)
    with True Cons.prems show ?thesis by simp
  next
    case False
    then have "key x \<le> key y" by simp
    with below have "\<forall>z\<in>set (insort_desc key x ys). key z \<le> key y"
      by (simp add: set_insort_desc)
    with False tail show ?thesis by simp
  qed
qed

lemma sorted_order_by_desc: "sorted_wrt (\<lambda>a b. key b \<le> key a) (order_by_desc key xs)"
  unfolding order_by_desc_def by (induction xs) (simp_all add: sorted_insort_desc)

lemma sorted_desc_index:
  fixes key :: "'a \<Rightarrow> 'k::linorder"
  assumes "sorted_wrt (\<lambda>a b. key b \<le> key a) xs" and "i < length xs" and "j < length xs"
    and "key (xs ! j) < key (xs ! i)"
  shows "i < j"
proof (rule ccontr)
  assume "\<not> i < j"
  then consider "j = i" | "j < i" by linarith
  then show False
  proof cases
    case 1
    with assms(4) show False by simp
  next
    case 2
    from sorted_wrt_nth_less [OF assms(1) 2 assms(2)] assms(4) show False by simp
  qed
qed

lemma sql_max_Some:
  assumes "sql_max xs = Some v"
  shows "v \<in> set xs \<and> (\<forall>x\<in>set xs. x \<le> v)"
proof (cases xs)
  case Nil
  with assms show ?thesis by (simp add: sql_max_def)
next
  case (Cons x ys)
  have "fold max ys x = Max (set (x # ys))"
    by (rule Max.set_eq_fold [symmetric])
  with assms Cons have v: "v = Max (set xs)"
    by (simp add: sql_max_def)
  have ne: "set xs \<noteq> {}"
    using Cons by simp
  have "Max (set xs) \<in> set xs"
    using ne by (intro Max_in) simp_all
  moreover have "\<forall>x\<in>set xs. x \<le> Max (set xs)"
    by (intro ballI Max_ge) simp_all
  ultimately show ?thesis using v by simp
qed

lemma sql_max_iff:
  assumes "x \<in> set xs"
  shows "sql_max xs = Some x \<longleftrightarrow> (\<forall>y\<in>set xs. y \<le> x)"
proof
  assume "sql_max xs = Some x"
  from sql_max_Some [OF this] show "\<forall>y\<in>set xs. y \<le> x" by simp
next
  assume le: "\<forall>y\<in>set xs. y \<le> x"
  from assms obtain z zs where xs: "xs = z # zs"
    by (cases xs) auto
  have "fold max zs z = Max (set (z # zs))"
    by (rule Max.set_eq_fold [symmetric])
  then have "sql_max xs = Some (Max (set xs))"
    by (simp add: sql_max_def xs)
  moreover have "Max (set xs) = x"
    using assms le by (intro Max_eqI) simp_all
  ultimately show "sql_max xs = Some x" by simp
qed

subsection \<open>Doubles\<close>

lemma Finite_less: "Finite x < Finite y \<longleftrightarrow> x < y"
  by (auto simp: less_double_def)

lemma pow2_powr: "pow2 e = 2 powr (real_of_int e)"
  by (simp add: pow2_def powr_real_of_int inverse_eq_divide)

lemma floor_log2:
  assumes a: "pow2 e \<le> \<bar>x\<bar>" and b: "\<bar>x\<bar> < pow2 (e + 1)"
  shows "\<lfloor>log 2 \<bar>x\<bar>\<rfloor> = e"
proof -
  have "0 < pow2 e" by (simp add: pow2_def)
  with a have pos: "0 < \<bar>x\<bar>" by linarith
  from a b have "2 powr (real_of_int e) \<le> \<bar>x\<bar> \<and> \<bar>x\<bar> < 2 powr (real_of_int e + 1)"
    by (simp add: pow2_powr)
  with pos show ?thesis
    by (simp add: floor_log_eq_powr_iff)
qed

text \<open>
  The rounding of a number whose binary exponent \<^verbatim>\<open>e\<close> is known: the spacing of the
  doubles around it is \<^verbatim>\<open>2^(e-52)\<close>.
\<close>

lemma round_double_at:
  assumes "pow2 e \<le> \<bar>x\<bar>" and "\<bar>x\<bar> < pow2 (e + 1)" and "- 1022 \<le> e"
    and "of_int (round_half_even (x / pow2 (e - 52))) * pow2 (e - 52) = y"
    and "\<bar>y\<bar> < pow2 1024"
  shows "round_double x = Finite y"
proof -
  have "0 < pow2 e" by (simp add: pow2_def)
  with assms(1) have "x \<noteq> 0" by auto
  moreover have "max \<lfloor>log 2 \<bar>x\<bar>\<rfloor> (- 1022) = e"
    using floor_log2 [OF assms(1,2)] assms(3) by simp
  ultimately show ?thesis
    using assms(4,5) by (simp add: round_double_def Let_def)
qed

lemma round_half_even_of_int: "round_half_even (of_int m) = m"
  by (simp add: round_half_even_def)

text \<open>Every integer below \<^verbatim>\<open>2^53\<close> in absolute value is a double.\<close>

lemma round_double_of_int:
  assumes "\<bar>n\<bar> < 2 ^ 53"
  shows "round_double (of_int n) = Finite (of_int n)"
proof (cases "n = 0")
  case True
  then show ?thesis by (simp add: round_double_def)
next
  case False
  define x :: real where "x = of_int n"
  define e where "e = \<lfloor>log 2 \<bar>x\<bar>\<rfloor>"
  from False have "1 \<le> \<bar>n\<bar>" by linarith
  then have "real_of_int 1 \<le> real_of_int \<bar>n\<bar>" by (simp only: of_int_le_iff)
  then have one: "1 \<le> \<bar>x\<bar>"
    by (simp add: x_def)
  then have pos: "0 < \<bar>x\<bar>" by linarith
  have e0: "0 \<le> e"
    unfolding e_def using one by simp
  from assms have "real_of_int \<bar>n\<bar> < real_of_int (2 ^ 53)" by (simp only: of_int_less_iff)
  then have small: "\<bar>x\<bar> < 2 ^ 53"
    by (simp add: x_def)
  then have "log 2 \<bar>x\<bar> < 53"
    using pos by (simp add: log_less_iff)
  then have e52: "e \<le> 52"
    unfolding e_def by (simp add: floor_le_iff)
  have b: "pow2 e \<le> \<bar>x\<bar> \<and> \<bar>x\<bar> < pow2 (e + 1)"
    using floor_log_eq_powr_iff [of "\<bar>x\<bar>" 2 e] pos by (simp add: e_def pow2_powr)
  have ulp: "pow2 (e - 52) = 1 / 2 ^ nat (52 - e)"
    using e52 by (cases "e = 52") (simp_all add: pow2_def)
  have "x / pow2 (e - 52) = of_int (n * 2 ^ nat (52 - e))"
    by (simp add: ulp x_def)
  then have r: "round_half_even (x / pow2 (e - 52)) = n * 2 ^ nat (52 - e)"
    by (simp only: round_half_even_of_int)
  have y: "of_int (round_half_even (x / pow2 (e - 52))) * pow2 (e - 52) = x"
    unfolding r unfolding ulp by (simp add: x_def)
  have "\<bar>x\<bar> < pow2 1024"
    using small by (simp add: pow2_def)
  from round_double_at [of e x x] b e0 y this show ?thesis
    by (simp add: x_def)
qed

lemma round_double_numeral:
  "(numeral k :: int) < 9007199254740992 \<Longrightarrow> round_double (numeral k) = Finite (numeral k)"
  using round_double_of_int [of "numeral k"] by simp

lemma round_double_0: "round_double 0 = Finite 0"
  by (simp add: round_double_def)

lemma round_double_1: "round_double 1 = Finite 1"
  using round_double_of_int [of 1] by simp

lemma round_double_half: "round_double (1 / 2) = Finite (1 / 2)"
  by (rule round_double_at [of "- 1"]) (simp_all add: pow2_def round_half_even_def)

lemmas round_double_simps =
  round_double_numeral round_double_0 round_double_1 round_double_half Finite_less

text \<open>
  \<^verbatim>\<open>((volume / 100) - 1) * 100\<close> is exact for a volume that is a multiple of 100 below
  \<^verbatim>\<open>2^46 * 100\<close>, and is not for 110.5: the quotient 1.105 is not a double, and the
  rounded quotient gives 10.499999999999998.
\<close>

lemma volume_change_of_exact:
  assumes "\<bar>n\<bar> < 2 ^ 46"
  shows "volume_change_of (Finite (of_int n * 100)) = Some (Finite (of_int n * 100 - 100))"
proof -
  from assms have 1: "\<bar>n\<bar> < 2 ^ 53" and 2: "\<bar>n - 1\<bar> < 2 ^ 53" and 3: "\<bar>(n - 1) * 100\<bar> < 2 ^ 53"
    by (simp_all add: abs_mult)
  have "round_double (real_of_int n * 100 / 100) = Finite (of_int n)"
    using round_double_of_int [OF 1] by simp
  moreover have "round_double (real_of_int n - 1) = Finite (of_int (n - 1))"
    using round_double_of_int [OF 2] by simp
  moreover have "round_double (real_of_int (n - 1) * 100) = Finite (of_int ((n - 1) * 100))"
    using round_double_of_int [OF 3] by simp
  ultimately show ?thesis
    by (simp add: volume_change_of_def algebra_simps)
qed

lemma volume_change_of_110_5:
  "volume_change_of (Finite (221 / 2)) = Some (Finite (5910974510923775 / 562949953421312))"
proof -
  have q: "round_double (221 / 2 / 100) = Finite (2488238794122199 / 2251799813685248)"
    by (rule round_double_at [of 0]) (simp_all add: pow2_def round_half_even_def)
  have d: "round_double (2488238794122199 / 2251799813685248 - 1) =
             Finite (236438980436951 / 2251799813685248)"
    by (rule round_double_at [of "- 4"]) (simp_all add: pow2_def round_half_even_def)
  have m: "round_double (236438980436951 / 2251799813685248 * 100) =
             Finite (5910974510923775 / 562949953421312)"
    by (rule round_double_at [of 3]) (simp_all add: pow2_def round_half_even_def)
  have "double_div (Finite (221 / 2)) (Finite 100) =
          Some (Finite (2488238794122199 / 2251799813685248))"
    using q by simp
  moreover have "double_sub (Finite (2488238794122199 / 2251799813685248)) (Finite 1) =
          Some (Finite (236438980436951 / 2251799813685248))"
    using d by simp
  moreover have "double_mul (Finite (236438980436951 / 2251799813685248)) (Finite 100) =
          Some (Finite (5910974510923775 / 562949953421312))"
    using m by simp
  ultimately show ?thesis
    unfolding volume_change_of_def by (simp only: Option.bind.simps)
qed

lemma price_rows_set:
  "(c, m) \<in> set [(c, m).
             m \<leftarrow> ms,
             c \<leftarrow> cs, m_coin_id m = c_id c,
             cc \<leftarrow> ccs, c_id c = cc_coin_id cc,
             Some (m_timestamp m) = mx,
             category_ok params cc]
   \<Longrightarrow> m \<in> set ms \<and> c \<in> set cs \<and> m_coin_id m = c_id c \<and> mx = Some (m_timestamp m)"
  by (auto split: if_splits)

lemma priceMoversRaw_set:
  assumes "(c, m) \<in> set (priceMoversRaw params db)"
  shows "m \<in> set (market_data db) \<and> c \<in> set (coins db) \<and> m_coin_id m = c_id c \<and>
         sql_max (map m_timestamp (market_data db)) = Some (m_timestamp m)"
proof -
  have "set (priceMoversRaw params db) \<subseteq>
        set (order_by_desc (\<lambda>(c, m). map_option double_abs (m_price_change_percentage_24h m))
          [(c, m).
             m \<leftarrow> market_data db,
             c \<leftarrow> coins db, m_coin_id m = c_id c,
             cc \<leftarrow> coin_categories db, c_id c = cc_coin_id cc,
             Some (m_timestamp m) = sql_max (map m_timestamp (market_data db)),
             category_ok params cc])"
    unfolding priceMoversRaw_def by (rule set_sql_limit)
  with assms have "(c, m) \<in> set [(c, m).
             m \<leftarrow> market_data db,
             c \<leftarrow> coins db, m_coin_id m = c_id c,
             cc \<leftarrow> coin_categories db, c_id c = cc_coin_id cc,
             Some (m_timestamp m) = sql_max (map m_timestamp (market_data db)),
             category_ok params cc]"
    unfolding set_order_by_desc by (rule subsetD [rotated])
  then show ?thesis
    by (rule price_rows_set)
qed

text \<open>
  C9, amended. Every entry of \<^verbatim>\<open>priceMovers\<close> comes from one \<^verbatim>\<open>market_data\<close> row whose
  stored timestamp is the greatest of the table (in the order of SQLite: numbers below
  texts), joined with its coin, and its \<^verbatim>\<open>volume_change\<close> is
  \<^verbatim>\<open>((total_volume / 100) - 1) * 100\<close> of that single row, evaluated in double arithmetic,
  each of the three operations rounding its result. No second snapshot enters the value. It
  is the total volume minus 100 when the volume is a multiple of 100 below
  \<^verbatim>\<open>2^46 * 100\<close>; in general the rounding makes it differ from that.
\<close>

theorem C9_price_mover_volume_change:
  "\<forall>e\<in>set (priceMovers (getMarketAnalysis clk params db)).
     \<exists>m\<in>set (market_data db). \<exists>c\<in>set (coins db).
       c_id c = m_coin_id m \<and> pm_name e = c_name c \<and> pm_symbol e = c_symbol c \<and>
       (\<forall>m'\<in>set (market_data db). m_timestamp m' \<le> m_timestamp m) \<and>
       pm_volume_change e =
         Option.bind
           (Option.bind (double_div (m_total_volume m) (Finite 100)) (\<lambda>q. double_sub q (Finite 1)))
           (\<lambda>d. double_mul d (Finite 100)) \<and>
       (\<forall>n. \<bar>n\<bar> < 2 ^ 46 \<and> m_total_volume m = Finite (of_int n * 100) \<longrightarrow>
            pm_volume_change e = Some (Finite (of_int n * 100 - 100)))"
proof
  fix e
  assume "e \<in> set (priceMovers (getMarketAnalysis clk params db))"
  then obtain c m where cm: "(c, m) \<in> set (priceMoversRaw params db)"
    and e: "e = \<lparr>pm_name = c_name c, pm_symbol = c_symbol c,
                 pm_price_change = m_price_change_percentage_24h m,
                 pm_volume_change = volume_change_of (m_total_volume m)\<rparr>"
    by (auto simp: getMarketAnalysis_def)
  from priceMoversRaw_set [OF cm]
  have m: "m \<in> set (market_data db)" and c: "c \<in> set (coins db)" "m_coin_id m = c_id c"
    and mx: "sql_max (map m_timestamp (market_data db)) = Some (m_timestamp m)"
    by simp_all
  from sql_max_Some [OF mx] have latest: "\<forall>m'\<in>set (market_data db). m_timestamp m' \<le> m_timestamp m"
    by auto
  have formula: "pm_volume_change e =
         Option.bind
           (Option.bind (double_div (m_total_volume m) (Finite 100)) (\<lambda>q. double_sub q (Finite 1)))
           (\<lambda>d. double_mul d (Finite 100))"
    by (simp add: e volume_change_of_def)
  have exact: "\<forall>n. \<bar>n\<bar> < 2 ^ 46 \<and> m_total_volume m = Finite (of_int n * 100) \<longrightarrow>
            pm_volume_change e = Some (Finite (of_int n * 100 - 100))"
    using volume_change_of_exact by (simp add: e)
  have names: "pm_name e = c_name c" "pm_symbol e = c_symbol c"
    by (simp_all add: e)
  from names m c(1) c(2) [symmetric] latest formula exact show
    "\<exists>m\<in>set (market_data db). \<exists>c\<in>set (coins db).
       c_id c = m_coin_id m \<and> pm_name e = c_name c \<and> pm_symbol e = c_symbol c \<and>
       (\<forall>m'\<in>set (market_data db). m_timestamp m' \<le> m_timestamp m) \<and>
       pm_volume_change e =
         Option.bind
           (Option.bind (double_div (m_total_volume m) (Finite 100)) (\<lambda>q. double_sub q (Finite 1)))
           (\<lambda>d. double_mul d (Finite 100)) \<and>
       (\<forall>n. \<bar>n\<bar> < 2 ^ 46 \<and> m_total_volume m = Finite (of_int n * 100) \<longrightarrow>
            pm_volume_change e = Some (Finite (of_int n * 100 - 100)))"
    by blast
qed

theorem C9_price_mover_volume_change_witness:
  "priceMovers (getMarketAnalysis \<lparr>one_day_ago = ''2024-05-01 11:00:00'', two_days_ago = ''2024-04-30 11:00:00''\<rparr> \<lparr>timeframe = TF_24h, param_category = Some ''base-meme-coins'', param_limit = Some 10\<rparr> \<lparr>coins = [\<lparr>c_id = ''degen-base'', c_symbol = ''degen'', c_name = ''Degen''\<rparr>,
               \<lparr>c_id = ''brett'', c_symbol = ''brett'', c_name = ''Brett''\<rparr>],
      coin_categories = [\<lparr>cc_coin_id = ''degen-base'', cc_category_id = ''base-meme-coins''\<rparr>,
                         \<lparr>cc_coin_id = ''brett'', cc_category_id = ''base-meme-coins''\<rparr>],
      market_data =
        [\<lparr>m_id = 1, m_coin_id = ''degen-base'', m_current_price = Finite 1, m_market_cap = Finite 9000000,
          m_total_volume = Finite 1000, m_market_cap_rank = None, m_price_change_percentage_1h = None,
          m_price_change_percentage_24h = Some (Finite 4), m_price_change_percentage_7d = None,
          m_price_change_percentage_14d = None, m_price_change_percentage_30d = None,
          m_price_change_percentage_200d = None, m_timestamp = SqlText ''2024-05-01T10:00:00.000Z'',
          m_data_source = ''coingecko''\<rparr>,
         \<lparr>m_id = 2, m_coin_id = ''brett'', m_current_price = Finite 2, m_market_cap = Finite 9000000,
          m_total_volume = Finite 500, m_market_cap_rank = None, m_price_change_percentage_1h = None,
          m_price_change_percentage_24h = Some (Finite 5), m_price_change_percentage_7d = None,
          m_price_change_percentage_14d = None, m_price_change_percentage_30d = None,
          m_price_change_percentage_200d = None, m_timestamp = SqlText ''2024-05-01T10:00:01.000Z'',
          m_data_source = ''coingecko''\<rparr>,
         \<lparr>m_id = 3, m_coin_id = ''degen-base'', m_current_price = Finite 2, m_market_cap = Finite 9000000,
          m_total_volume = Finite 3000, m_market_cap_rank = None, m_price_change_percentage_1h = None,
          m_price_change_percentage_24h = Some (Finite 100), m_price_change_percentage_7d = None,
          m_price_change_percentage_14d = None, m_price_change_percentage_30d = None,
          m_price_change_percentage_200d = None, m_timestamp = SqlText ''2024-05-02T10:00:00.000Z'',
          m_data_source = ''coingecko''\<rparr>,
         \<lparr>m_id = 4, m_coin_id = ''brett'', m_current_price = Finite 3, m_market_cap = Finite 9000000,
          m_total_volume = Finite 1000, m_market_cap_rank = None, m_price_change_percentage_1h = None,
          m_price_change_percentage_24h = Some (Finite 50), m_price_change_percentage_7d = None,
          m_price_change_percentage_14d = None, m_price_change_percentage_30d = None,
          m_price_change_percentage_200d = None, m_timestamp = SqlText ''2024-05-02T10:00:01.000Z'',
          m_data_source = ''coingecko''\<rparr>],
      market_data_seq = 4\<rparr>) =
     [\<lparr>pm_name = ''Brett'', pm_symbol = ''brett'', pm_price_change = Some (Finite 50),
       pm_volume_change = Some (Finite 900)\<rparr>]"
  using C9_price_mover_volume_change
    [of "\<lparr>one_day_ago = ''2024-05-01 11:00:00'', two_days_ago = ''2024-04-30 11:00:00''\<rparr>"
        "\<lparr>timeframe = TF_24h, param_category = Some ''base-meme-coins'', param_limit = Some 10\<rparr>"
        "\<lparr>coins = [\<lparr>c_id = ''degen-base'', c_symbol = ''degen'', c_name = ''Degen''\<rparr>,
               \<lparr>c_id = ''brett'', c_symbol = ''brett'', c_name = ''Brett''\<rparr>],
      coin_categories = [\<lparr>cc_coin_id = ''degen-base'', cc_category_id = ''base-meme-coins''\<rparr>,
                         \<lparr>cc_coin_id = ''brett'', cc_category_id = ''base-meme-coins''\<rparr>],
      market_data =
        [\<lparr>m_id = 1, m_coin_id = ''degen-base'', m_current_price = Finite 1, m_market_cap = Finite 9000000,
          m_total_volume = Finite 1000, m_market_cap_rank = None, m_price_change_percentage_1h = None,
          m_price_change_percentage_24h = Some (Finite 4), m_price_change_percentage_7d = None,
          m_price_change_percentage_14d = None, m_price_change_percentage_30d = None,
          m_price_change_percentage_200d = None, m_timestamp = SqlText ''2024-05-01T10:00:00.000Z'',
          m_data_source = ''coingecko''\<rparr>,
         \<lparr>m_id = 2, m_coin_id = ''brett'', m_current_price = Finite 2, m_market_cap = Finite 9000000,
          m_total_volume = Finite 500, m_market_cap_rank = None, m_price_change_percentage_1h = None,
          m_price_change_percentage_24h = Some (Finite 5), m_price_change_percentage_7d = None,
          m_price_change_percentage_14d = None, m_price_change_percentage_30d = None,
          m_price_change_percentage_200d = None, m_timestamp = SqlText ''2024-05-01T10:00:01.000Z'',
          m_data_source = ''coingecko''\<rparr>,
         \<lparr>m_id = 3, m_coin_id = ''degen-base'', m_current_price = Finite 2, m_market_cap = Finite 9000000,
          m_total_volume = Finite 3000, m_market_cap_rank = None, m_price_change_percentage_1h = None,
          m_price_change_percentage_24h = Some (Finite 100), m_price_change_percentage_7d = None,
          m_price_change_percentage_14d = None, m_price_change_percentage_30d = None,
          m_price_change_percentage_200d = None, m_timestamp = SqlText ''2024-05-02T10:00:00.000Z'',
          m_data_source = ''coingecko''\<rparr>,
         \<lparr>m_id = 4, m_coin_id = ''brett'', m_current_price = Finite 3, m_market_cap = Finite 9000000,
          m_total_volume = Finite 1000, m_market_cap_rank = None, m_price_change_percentage_1h = None,
          m_price_change_percentage_24h = Some (Finite 50), m_price_change_percentage_7d = None,
          m_price_change_percentage_14d = None, m_price_change_percentage_30d = None,
          m_price_change_percentage_200d = None, m_timestamp = SqlText ''2024-05-02T10:00:01.000Z'',
          m_data_source = ''coingecko''\<rparr>],
      market_data_seq = 4\<rparr>"]
  by (simp add: getMarketAnalysis_def priceMoversRaw_def sql_max_def order_by_desc_def sql_limit_def
        analysis_limit_def category_ok_def volume_change_of_def round_double_simps)

text \<open>
  C9 as stated fails for a total volume of 110.5: the entry's \<^verbatim>\<open>volume_change\<close> is
  10.499999999999998 (\<^verbatim>\<open>5910974510923775 / 2^49\<close>), and the total volume minus 100 is
  10.5.
\<close>

theorem C9_volume_minus_100_counterexample:
  "priceMovers (getMarketAnalysis \<lparr>one_day_ago = ''2024-05-01 11:00:00'', two_days_ago = ''2024-04-30 11:00:00''\<rparr> \<lparr>timeframe = TF_24h, param_category = Some ''base-meme-coins'', param_limit = Some 10\<rparr> \<lparr>coins = [\<lparr>c_id = ''brett'', c_symbol = ''brett'', c_name = ''Brett''\<rparr>],
      coin_categories = [\<lparr>cc_coin_id = ''brett'', cc_category_id = ''base-meme-coins''\<rparr>],
      market_data =
        [\<lparr>m_id = 1, m_coin_id = ''brett'', m_current_price = Finite 3, m_market_cap = Finite 9000000,
          m_total_volume = Finite (221 / 2), m_market_cap_rank = None,
          m_price_change_percentage_1h = None,
          m_price_change_percentage_24h = Some (Finite 50), m_price_change_percentage_7d = None,
          m_price_change_percentage_14d = None, m_price_change_percentage_30d = None,
          m_price_change_percentage_200d = None,
          m_timestamp = SqlText ''2024-05-02T10:00:01.000Z'',
          m_data_source = ''coingecko''\<rparr>],
      market_data_seq = 1\<rparr>) =
     [\<lparr>pm_name = ''Brett'', pm_symbol = ''brett'', pm_price_change = Some (Finite 50),
       pm_volume_change = Some (Finite (5910974510923775 / 562949953421312))\<rparr>] \<and>
   double_sub (Finite (221 / 2)) (Finite 100) = Some (Finite (21 / 2)) \<and>
   Finite (5910974510923775 / 562949953421312) \<noteq> Finite (21 / 2)"
proof -
  have "round_double (221 / 2 - 100) = Finite (21 / 2)"
    by (rule round_double_at [of 3]) (simp_all add: pow2_def round_half_even_def)
  then show ?thesis
    by (simp add: getMarketAnalysis_def priceMoversRaw_def sql_max_def order_by_desc_def
          sql_limit_def analysis_limit_def category_ok_def volume_change_of_110_5)
qed

text \<open>
  C2. The code on a table with two assets of the requested category, each with a snapshot
  of the previous day and one of today: Degen's volume went from 1000 to 3000 and Brett's
  from 500 to 1000, and Brett's row is the newest of the table. The query \<^verbatim>\<open>recent\<close> keeps
  one row of the whole table (\<^verbatim>\<open>LIMIT 1\<close>), so the join on \<^verbatim>\<open>coin_id\<close> leaves only
  Brett's rows: the result compares Brett's newest row with each of Brett's rows of the last
  two days, itself included (change 0), and Degen is absent.
\<close>

theorem C2_volume_leaders_of_one_asset:
  "volumeLeaders (getMarketAnalysis \<lparr>one_day_ago = ''2024-05-01 11:00:00'', two_days_ago = ''2024-04-30 11:00:00''\<rparr> \<lparr>timeframe = TF_24h, param_category = Some ''base-meme-coins'', param_limit = Some 10\<rparr> \<lparr>coins = [\<lparr>c_id = ''degen-base'', c_symbol = ''degen'', c_name = ''Degen''\<rparr>,
               \<lparr>c_id = ''brett'', c_symbol = ''brett'', c_name = ''Brett''\<rparr>],
      coin_categories = [\<lparr>cc_coin_id = ''degen-base'', cc_category_id = ''base-meme-coins''\<rparr>,
                         \<lparr>cc_coin_id = ''brett'', cc_category_id = ''base-meme-coins''\<rparr>],
      market_data =
        [\<lparr>m_id = 1, m_coin_id = ''degen-base'', m_current_price = Finite 1, m_market_cap = Finite 9000000,
          m_total_volume = Finite 1000, m_market_cap_rank = None, m_price_change_percentage_1h = None,
          m_price_change_percentage_24h = Some (Finite 4), m_price_change_percentage_7d = None,
          m_price_change_percentage_14d = None, m_price_change_percentage_30d = None,
          m_price_change_percentage_200d = None, m_timestamp = SqlText ''2024-05-01T10:00:00.000Z'',
          m_data_source = ''coingecko''\<rparr>,
         \<lparr>m_id = 2, m_coin_id = ''brett'', m_current_price = Finite 2, m_market_cap = Finite 9000000,
          m_total_volume = Finite 500, m_market_cap_rank = None, m_price_change_percentage_1h = None,
          m_price_change_percentage_24h = Some (Finite 5), m_price_change_percentage_7d = None,
          m_price_change_percentage_14d = None, m_price_change_percentage_30d = None,
          m_price_change_percentage_200d = None, m_timestamp = SqlText ''2024-05-01T10:00:01.000Z'',
          m_data_source = ''coingecko''\<rparr>,
         \<lparr>m_id = 3, m_coin_id = ''degen-base'', m_current_price = Finite 2, m_market_cap = Finite 9000000,
          m_total_volume = Finite 3000, m_market_cap_rank = None, m_price_change_percentage_1h = None,
          m_price_change_percentage_24h = Some (Finite 100), m_price_change_percentage_7d = None,
          m_price_change_percentage_14d = None, m_price_change_percentage_30d = None,
          m_price_change_percentage_200d = None, m_timestamp = SqlText ''2024-05-02T10:00:00.000Z'',
          m_data_source = ''coingecko''\<rparr>,
         \<lparr>m_id = 4, m_coin_id = ''brett'', m_current_price = Finite 3, m_market_cap = Finite 9000000,
          m_total_volume = Finite 1000, m_market_cap_rank = None, m_price_change_percentage_1h = None,
          m_price_change_percentage_24h = Some (Finite 50), m_price_change_percentage_7d = None,
          m_price_change_percentage_14d = None, m_price_change_percentage_30d = None,
          m_price_change_percentage_200d = None, m_timestamp = SqlText ''2024-05-02T10:00:01.000Z'',
          m_data_source = ''coingecko''\<rparr>],
      market_data_seq = 4\<rparr>) =
     [\<lparr>vl_name = ''Brett'', vl_symbol = ''brett'', vl_volume_change = Some (Finite 100),
       vl_price_change = Some (Finite 50)\<rparr>,
      \<lparr>vl_name = ''Brett'', vl_symbol = ''brett'', vl_volume_change = Some (Finite 0),
       vl_price_change = Some (Finite 0)\<rparr>]"
  by (simp add: getMarketAnalysis_def volumeLeadersRaw_def recent_def order_by_desc_def sql_limit_def
        analysis_limit_def category_ok_def volume_change_pct_def price_change_pct_def change_pct_def
        sql_div_def round_double_simps)

lemma base_native_metrics_set:
  "r \<in> set (base_native_metrics LOG10 bmds btis) \<longleftrightarrow>
     (\<exists>bmd\<in>set bmds. \<exists>bti\<in>set btis.
        r = metrics_row_of LOG10 bmd bti \<and> bmd_id (token bmd) = bti_id bti \<and>
        Some (timestamp bmd) = sql_max (map timestamp bmds) \<and>
        bti_asset_platform_id bti = Some ''base'' \<and>
        sql_ge (bmd_market_cap (token bmd)) 5000000 \<and>
        sql_ge (bmd_total_volume (token bmd)) 300000 \<and>
        (sql_ge (map_option double_abs (bmd_price_change_percentage_24h (token bmd))) 5 \<or>
         sql_ge (map_option double_abs (bmd_price_change_percentage_7d_in_currency (token bmd))) 5))"
  unfolding base_native_metrics_def by auto

lemma metrics_row_of_fields:
  "price_change_of tf (metrics_row_of LOG10 bmd bti) = bmd_price_change tf (token bmd)"
  "bnm_market_cap (metrics_row_of LOG10 bmd bti) = bmd_market_cap (token bmd)"
  "bnm_total_volume (metrics_row_of LOG10 bmd bti) = bmd_total_volume (token bmd)"
  "score_of tf (metrics_row_of LOG10 bmd bti) =
     movement_score LOG10 (bmd_price_change tf (token bmd))
       (bmd_market_cap (token bmd)) (bmd_total_volume (token bmd))"
  by (cases tf; simp add: metrics_row_of_def)+

lemma latest_iff:
  assumes "bmd \<in> set bmds"
  shows "Some (timestamp bmd) = sql_max (map timestamp bmds) \<longleftrightarrow>
         (\<forall>b\<in>set bmds. timestamp b \<le> timestamp bmd)"
  using assms sql_max_iff [of "timestamp bmd" "map timestamp bmds"] by auto

lemma ranked_set:
  "r \<in> set (ranked tf mt (base_native_metrics LOG10 bmds btis)) \<longleftrightarrow>
     (\<exists>bmd\<in>set bmds. \<exists>bti\<in>set btis.
        r = metrics_row_of LOG10 bmd bti \<and> bmd_id (token bmd) = bti_id bti \<and>
        (\<forall>b\<in>set bmds. timestamp b \<le> timestamp bmd) \<and>
        bti_asset_platform_id bti = Some ''base'' \<and>
        sql_ge (bmd_market_cap (token bmd)) 5000000 \<and>
        sql_ge (bmd_total_volume (token bmd)) 300000 \<and>
        sql_ge (map_option double_abs (bmd_price_change tf (token bmd))) 5 \<and>
        movement_type (bmd_price_change tf (token bmd)) = mt)"
proof
  assume "r \<in> set (ranked tf mt (base_native_metrics LOG10 bmds btis))"
  then have r: "r \<in> set (base_native_metrics LOG10 bmds btis)"
    and ge: "sql_ge (map_option double_abs (price_change_of tf r)) 5"
    and mt: "movement_type (price_change_of tf r) = mt"
    by (simp_all add: ranked_def set_order_by_desc)
  from r obtain bmd bti where b: "bmd \<in> set bmds" "bti \<in> set btis"
    and row: "r = metrics_row_of LOG10 bmd bti"
    and rest: "bmd_id (token bmd) = bti_id bti"
      "bti_asset_platform_id bti = Some ''base''"
      "sql_ge (bmd_market_cap (token bmd)) 5000000"
      "sql_ge (bmd_total_volume (token bmd)) 300000"
    and mx: "Some (timestamp bmd) = sql_max (map timestamp bmds)"
    unfolding base_native_metrics_set by blast
  from b(1) mx have latest: "\<forall>b\<in>set bmds. timestamp b \<le> timestamp bmd"
    by (simp add: latest_iff)
  from ge mt have "sql_ge (map_option double_abs (bmd_price_change tf (token bmd))) 5"
    and "movement_type (bmd_price_change tf (token bmd)) = mt"
    by (simp_all add: row metrics_row_of_fields)
  with b row rest latest show
    "\<exists>bmd\<in>set bmds. \<exists>bti\<in>set btis.
        r = metrics_row_of LOG10 bmd bti \<and> bmd_id (token bmd) = bti_id bti \<and>
        (\<forall>b\<in>set bmds. timestamp b \<le> timestamp bmd) \<and>
        bti_asset_platform_id bti = Some ''base'' \<and>
        sql_ge (bmd_market_cap (token bmd)) 5000000 \<and>
        sql_ge (bmd_total_volume (token bmd)) 300000 \<and>
        sql_ge (map_option double_abs (bmd_price_change tf (token bmd))) 5 \<and>
        movement_type (bmd_price_change tf (token bmd)) = mt"
    by blast
next
  assume "\<exists>bmd\<in>set bmds. \<exists>bti\<in>set btis.
        r = metrics_row_of LOG10 bmd bti \<and> bmd_id (token bmd) = bti_id bti \<and>
        (\<forall>b\<in>set bmds. timestamp b \<le> timestamp bmd) \<and>
        bti_asset_platform_id bti = Some ''base'' \<and>
        sql_ge (bmd_market_cap (token bmd)) 5000000 \<and>
        sql_ge (bmd_total_volume (token bmd)) 300000 \<and>
        sql_ge (map_option double_abs (bmd_price_change tf (token bmd))) 5 \<and>
        movement_type (bmd_price_change tf (token bmd)) = mt"
  then obtain bmd bti where b: "bmd \<in> set bmds" "bti \<in> set btis"
    and row: "r = metrics_row_of LOG10 bmd bti"
    and rest: "bmd_id (token bmd) = bti_id bti"
      "bti_asset_platform_id bti = Some ''base''"
      "sql_ge (bmd_market_cap (token bmd)) 5000000"
      "sql_ge (bmd_total_volume (token bmd)) 300000"
    and latest: "\<forall>b\<in>set bmds. timestamp b \<le> timestamp bmd"
    and ge: "sql_ge (map_option double_abs (bmd_price_change tf (token bmd))) 5"
    and mt: "movement_type (bmd_price_change tf (token bmd)) = mt"
    by blast
  from b(1) latest have mx: "Some (timestamp bmd) = sql_max (map timestamp bmds)"
    by (simp add: latest_iff)
  from ge have
    "sql_ge (map_option double_abs (bmd_price_change_percentage_24h (token bmd))) 5 \<or>
     sql_ge (map_option double_abs (bmd_price_change_percentage_7d_in_currency (token bmd))) 5"
    by (cases tf) simp_all
  with b row rest mx have "r \<in> set (base_native_metrics LOG10 bmds btis)"
    unfolding base_native_metrics_set by blast
  with ge mt show "r \<in> set (ranked tf mt (base_native_metrics LOG10 bmds btis))"
    by (simp add: ranked_def set_order_by_desc row metrics_row_of_fields)
qed

lemma sql_ge_Some: "sql_ge x c \<Longrightarrow> \<exists>v. x = Some v \<and> Finite c \<le> v"
  by (cases x) (simp_all add: sql_ge_def)

lemma score_formula:
  assumes "sql_ge cap 5000000" and "sql_ge vol 300000" and "sql_ge (map_option double_abs pct) 5"
  shows "\<exists>p c v. pct = Some p \<and> cap = Some c \<and> vol = Some v \<and>
           Finite 5 \<le> double_abs p \<and> Finite 5000000 \<le> c \<and> Finite 300000 \<le> v \<and>
           movement_score LOG10 pct cap vol =
             Option.bind (Option.bind (LOG10 c) (double_mul p))
               (\<lambda>s. Option.bind (LOG10 v) (double_mul s))"
proof -
  from sql_ge_Some [OF assms(1)] obtain c where c: "cap = Some c" "Finite 5000000 \<le> c"
    by blast
  from sql_ge_Some [OF assms(2)] obtain v where v: "vol = Some v" "Finite 300000 \<le> v"
    by blast
  from sql_ge_Some [OF assms(3)] obtain p where p: "pct = Some p" "Finite 5 \<le> double_abs p"
    by (cases pct) auto
  have one: "Finite 1 < Finite 5000000" "Finite 1 < Finite 300000"
    by (simp_all add: Finite_less)
  have "Finite 1 < c"
    using one(1) c(2) by (rule less_le_trans)
  moreover have "Finite 1 < v"
    using one(2) v(2) by (rule less_le_trans)
  ultimately have "movement_score LOG10 (Some p) (Some c) (Some v) =
               Option.bind (Option.bind (LOG10 c) (double_mul p))
                 (\<lambda>s. Option.bind (LOG10 v) (double_mul s))"
    by (simp add: movement_score_def log10_clamped_def sql_gt_def)
  with c v p show ?thesis by blast
qed

text \<open>
  C8, amended. A partition of the notable-movers ranking (timeframe, gainer or loser) holds
  exactly the joined rows of \<^verbatim>\<open>base_market_data\<close> and \<^verbatim>\<open>base_token_info\<close> with the
  latest timestamp of the market table, platform \<^verbatim>\<open>base\<close>, a market cap of at least
  5000000, a volume of at least 300000, and a price change of the timeframe that is at
  least 5 percent in absolute value and has the sign of the partition. For each of them the
  score is the percentage change times \<^verbatim>\<open>LOG10\<close> of the market cap, times \<^verbatim>\<open>LOG10\<close> of
  the volume, in double arithmetic, and a row with a larger absolute score stands before
  every row with a smaller one, whatever their raw percentage changes. The result lists the
  first 3 rows of each 24h partition and the first row of each 7d partition.
\<close>

theorem C8_movement_score_ranking:
  "(\<forall>r. r \<in> set (ranked tf mt (base_native_metrics LOG10 bmds btis)) \<longleftrightarrow>
        (\<exists>bmd\<in>set bmds. \<exists>bti\<in>set btis.
           r = metrics_row_of LOG10 bmd bti \<and> bmd_id (token bmd) = bti_id bti \<and>
           (\<forall>b\<in>set bmds. timestamp b \<le> timestamp bmd) \<and>
           bti_asset_platform_id bti = Some ''base'' \<and>
           sql_ge (bmd_market_cap (token bmd)) 5000000 \<and>
           sql_ge (bmd_total_volume (token bmd)) 300000 \<and>
           sql_ge (map_option double_abs (bmd_price_change tf (token bmd))) 5 \<and>
           movement_type (bmd_price_change tf (token bmd)) = mt)) \<and>
   (\<forall>r\<in>set (ranked tf mt (base_native_metrics LOG10 bmds btis)).
      \<exists>p c v. price_change_of tf r = Some p \<and> bnm_market_cap r = Some c \<and>
              bnm_total_volume r = Some v \<and>
              Finite 5 \<le> double_abs p \<and> Finite 5000000 \<le> c \<and> Finite 300000 \<le> v \<and>
              score_of tf r =
                Option.bind (Option.bind (LOG10 c) (double_mul p))
                  (\<lambda>s. Option.bind (LOG10 v) (double_mul s))) \<and>
   (\<forall>i j. i < length (ranked tf mt (base_native_metrics LOG10 bmds btis)) \<and>
          j < length (ranked tf mt (base_native_metrics LOG10 bmds btis)) \<and>
          map_option double_abs (score_of tf (ranked tf mt (base_native_metrics LOG10 bmds btis) ! j))
            < map_option double_abs
                (score_of tf (ranked tf mt (base_native_metrics LOG10 bmds btis) ! i))
          \<longrightarrow> i < j) \<and>
   getNotableMovers LOG10 bmds btis =
     map (notable_mover Last_24h)
       (take 3 (ranked Last_24h ''gainer'' (base_native_metrics LOG10 bmds btis))) @
     map (notable_mover Last_24h)
       (take 3 (ranked Last_24h ''loser'' (base_native_metrics LOG10 bmds btis))) @
     map (notable_mover Last_7d)
       (take 1 (ranked Last_7d ''gainer'' (base_native_metrics LOG10 bmds btis))) @
     map (notable_mover Last_7d)
       (take 1 (ranked Last_7d ''loser'' (base_native_metrics LOG10 bmds btis)))"
proof (intro conjI allI ballI impI)
  fix r
  show "r \<in> set (ranked tf mt (base_native_metrics LOG10 bmds btis)) \<longleftrightarrow>
        (\<exists>bmd\<in>set bmds. \<exists>bti\<in>set btis.
           r = metrics_row_of LOG10 bmd bti \<and> bmd_id (token bmd) = bti_id bti \<and>
           (\<forall>b\<in>set bmds. timestamp b \<le> timestamp bmd) \<and>
           bti_asset_platform_id bti = Some ''base'' \<and>
           sql_ge (bmd_market_cap (token bmd)) 5000000 \<and>
           sql_ge (bmd_total_volume (token bmd)) 300000 \<and>
           sql_ge (map_option double_abs (bmd_price_change tf (token bmd))) 5 \<and>
           movement_type (bmd_price_change tf (token bmd)) = mt)"
    by (rule ranked_set)
next
  fix r
  assume "r \<in> set (ranked tf mt (base_native_metrics LOG10 bmds btis))"
  then obtain bmd bti where row: "r = metrics_row_of LOG10 bmd bti"
    and f: "sql_ge (bmd_market_cap (token bmd)) 5000000"
      "sql_ge (bmd_total_volume (token bmd)) 300000"
      "sql_ge (map_option double_abs (bmd_price_change tf (token bmd))) 5"
    unfolding ranked_set by blast
  from score_formula [OF f, of LOG10]
  show "\<exists>p c v. price_change_of tf r = Some p \<and> bnm_market_cap r = Some c \<and>
              bnm_total_volume r = Some v \<and>
              Finite 5 \<le> double_abs p \<and> Finite 5000000 \<le> c \<and> Finite 300000 \<le> v \<and>
              score_of tf r =
                Option.bind (Option.bind (LOG10 c) (double_mul p))
                  (\<lambda>s. Option.bind (LOG10 v) (double_mul s))"
    by (simp add: row metrics_row_of_fields)
next
  fix i j
  assume "i < length (ranked tf mt (base_native_metrics LOG10 bmds btis)) \<and>
          j < length (ranked tf mt (base_native_metrics LOG10 bmds btis)) \<and>
          map_option double_abs (score_of tf (ranked tf mt (base_native_metrics LOG10 bmds btis) ! j))
            < map_option double_abs
                (score_of tf (ranked tf mt (base_native_metrics LOG10 bmds btis) ! i))"
  then show "i < j"
    unfolding ranked_def
    by (elim conjE) (rule sorted_desc_index [OF sorted_order_by_desc])
next
  show "getNotableMovers LOG10 bmds btis =
     map (notable_mover Last_24h)
       (take 3 (ranked Last_24h ''gainer'' (base_native_metrics LOG10 bmds btis))) @
     map (notable_mover Last_24h)
       (take 3 (ranked Last_24h ''loser'' (base_native_metrics LOG10 bmds btis))) @
     map (notable_mover Last_7d)
       (take 1 (ranked Last_7d ''gainer'' (base_native_metrics LOG10 bmds btis))) @
     map (notable_mover Last_7d)
       (take 1 (ranked Last_7d ''loser'' (base_native_metrics LOG10 bmds btis)))"
    by (simp add: getNotableMovers_def)
qed

lemma log10_values:
  "log 10 1000000 = 6" "log 10 10000000 = 7" "log 10 100000000 = 8" "log 10 1000000000 = 9"
  "log 10 100000000000 = 11" "log 10 1000000000000 = 12"
  using log_pow_cancel [of 10 6] log_pow_cancel [of 10 7] log_pow_cancel [of 10 8]
    log_pow_cancel [of 10 9] log_pow_cancel [of 10 11] log_pow_cancel [of 10 12]
  by simp_all

theorem C8_movement_score_ranking_witness:
  "map (\<lambda>r. (bnm_id r, price_change_of Last_24h r, score_of Last_24h r))
     (ranked Last_24h ''gainer''
        (base_native_metrics correctly_rounded_log10
           [\<lparr>token = \<lparr>bmd_id = ''degen-base'', bmd_current_price = Some (Finite 1),
                 bmd_market_cap = Some (Finite 10000000), bmd_total_volume = Some (Finite 1000000),
                 bmd_price_change_percentage_24h = Some (Finite 7),
                 bmd_price_change_percentage_7d_in_currency = None\<rparr>,
        category = ''base-ecosystem'', timestamp = 1700000000\<rparr>,
       \<lparr>token = \<lparr>bmd_id = ''aerodrome'', bmd_current_price = Some (Finite 1),
                 bmd_market_cap = Some (Finite 1000000000), bmd_total_volume = Some (Finite 100000000),
                 bmd_price_change_percentage_24h = Some (Finite 6),
                 bmd_price_change_percentage_7d_in_currency = None\<rparr>,
        category = ''base-ecosystem'', timestamp = 1700000000\<rparr>]
           [\<lparr>bti_id = ''aerodrome'', bti_name = Some ''Aerodrome'', bti_symbol = Some ''aero'',
        bti_asset_platform_id = Some ''base''\<rparr>,
      \<lparr>bti_id = ''degen-base'', bti_name = Some ''Degen'', bti_symbol = Some ''degen'',
        bti_asset_platform_id = Some ''base''\<rparr>]))
   = [(''aerodrome'', Some (Finite 6), Some (Finite 432)),
      (''degen-base'', Some (Finite 7), Some (Finite 294))]"
  using C8_movement_score_ranking [of Last_24h "''gainer''" correctly_rounded_log10
     "[\<lparr>token = \<lparr>bmd_id = ''degen-base'', bmd_current_price = Some (Finite 1),
                 bmd_market_cap = Some (Finite 10000000), bmd_total_volume = Some (Finite 1000000),
                 bmd_price_change_percentage_24h = Some (Finite 7),
                 bmd_price_change_percentage_7d_in_currency = None\<rparr>,
        category = ''base-ecosystem'', timestamp = 1700000000\<rparr>,
       \<lparr>token = \<lparr>bmd_id = ''aerodrome'', bmd_current_price = Some (Finite 1),
                 bmd_market_cap = Some (Finite 1000000000), bmd_total_volume = Some (Finite 100000000),
                 bmd_price_change_percentage_24h = Some (Finite 6),
                 bmd_price_change_percentage_7d_in_currency = None\<rparr>,
        category = ''base-ecosystem'', timestamp = 1700000000\<rparr>]"
     "[\<lparr>bti_id = ''aerodrome'', bti_name = Some ''Aerodrome'', bti_symbol = Some ''aero'',
        bti_asset_platform_id = Some ''base''\<rparr>,
      \<lparr>bti_id = ''degen-base'', bti_name = Some ''Degen'', bti_symbol = Some ''degen'',
        bti_asset_platform_id = Some ''base''\<rparr>]"]
  by (simp add: getNotableMovers_def base_native_metrics_def metrics_row_of_def ranked_def
        order_by_desc_def sql_max_def sql_ge_def sql_gt_def movement_type_def notable_mover_def
        movement_score_def log10_clamped_def correctly_rounded_log10_def log10_values
        round_double_simps)

text \<open>
  C8 as stated fails for an asset above both floors whose price change is below 5 percent:
  with a \<^verbatim>\<open>LOG10\<close> that rounds correctly, Aerodrome (change 4, market cap 10^12, volume
  10^11, score 528) has a larger score than Degen (change 6, market cap 10^7, volume 10^6,
  score 252), yet the query does not rank it at all; the result holds Degen alone.
\<close>

theorem C8_larger_score_not_ranked_counterexample:
  "getNotableMovers correctly_rounded_log10
     [\<lparr>token = \<lparr>bmd_id = ''aerodrome'', bmd_current_price = Some (Finite 1),
                 bmd_market_cap = Some (Finite 1000000000000), bmd_total_volume = Some (Finite 100000000000),
                 bmd_price_change_percentage_24h = Some (Finite 4),
                 bmd_price_change_percentage_7d_in_currency = None\<rparr>,
        category = ''base-ecosystem'', timestamp = 1700000000\<rparr>,
       \<lparr>token = \<lparr>bmd_id = ''degen-base'', bmd_current_price = Some (Finite 1),
                 bmd_market_cap = Some (Finite 10000000), bmd_total_volume = Some (Finite 1000000),
                 bmd_price_change_percentage_24h = Some (Finite 6),
                 bmd_price_change_percentage_7d_in_currency = None\<rparr>,
        category = ''base-ecosystem'', timestamp = 1700000000\<rparr>]
     [\<lparr>bti_id = ''aerodrome'', bti_name = Some ''Aerodrome'', bti_symbol = Some ''aero'',
        bti_asset_platform_id = Some ''base''\<rparr>,
      \<lparr>bti_id = ''degen-base'', bti_name = Some ''Degen'', bti_symbol = Some ''degen'',
        bti_asset_platform_id = Some ''base''\<rparr>]
   = [\<lparr>nm_timeframe = ''last_24h'', nm_name = Some ''Degen'', nm_symbol = Some ''degen'',
        nm_current_price = Some (Finite 1), nm_market_cap = Some (Finite 10000000),
        nm_total_volume = Some (Finite 1000000),
        nm_price_change = Some (Finite 6), nm_movement_type = ''gainer''\<rparr>] \<and>
   movement_score correctly_rounded_log10
     (Some (Finite 4)) (Some (Finite 1000000000000)) (Some (Finite 100000000000))
     = Some (Finite 528) \<and>
   movement_score correctly_rounded_log10
     (Some (Finite 6)) (Some (Finite 10000000)) (Some (Finite 1000000))
     = Some (Finite 252)"
  by (simp add: getNotableMovers_def base_native_metrics_def metrics_row_of_def ranked_def
        order_by_desc_def sql_max_def sql_ge_def sql_gt_def movement_type_def notable_mover_def
        movement_score_def log10_clamped_def correctly_rounded_log10_def log10_values
        round_double_simps)


end
